theory Spec2Isabelle
  imports Main "HOL-Library.Sublist"
begin

section \<open>Python values used by rtt2pty_pylink.py\<close>

text \<open>
  Python strings are modelled as \<open>string\<close>; a character stands for a code point below
  256, which covers every character the program tests for (comma, digits, the \<open>0x\<close>
  prefix, NUL, white space). Integers are Python's unbounded integers, \<open>int\<close>.
\<close>

text \<open>The exception classes the program raises or catches. \<open>JLinkRTTException\<close> is a
  subclass of \<open>JLinkException\<close> in pylink; \<open>OSError\<close> carries its errno. Every
  constructor is a subclass of Python's \<open>Exception\<close>.\<close>

datatype exc =
    ValueError string
  | RTTBridgeError string
  | JLinkRTTException string
  | JLinkException string
  | UnicodeDecodeError string
  | AttributeError string
  | OSError int string
  | OtherException string

fun is_JLinkException :: "exc \<Rightarrow> bool" where
  "is_JLinkException (JLinkRTTException m) = True"
| "is_JLinkException (JLinkException m) = True"
| "is_JLinkException e = False"

definition squote :: string where
  "squote = [CHR 0x27]"

definition hex_digit :: "int \<Rightarrow> char" where
  "hex_digit d = (if d < 10 then char_of (48 + d) else char_of (55 + d))"

function hex_upper :: "int \<Rightarrow> string" where
  "hex_upper n =
     (if n < 16 then [hex_digit n] else hex_upper (n div 16) @ [hex_digit (n mod 16)])"
  by pat_completeness auto
termination
  by (relation "measure nat") auto

function dec_digits :: "int \<Rightarrow> string" where
  "dec_digits n =
     (if n < 10 then [char_of (48 + n)] else dec_digits (n div 10) @ [char_of (48 + n mod 10)])"
  by pat_completeness auto
termination
  by (relation "measure nat") auto

declare hex_upper.simps [simp del] dec_digits.simps [simp del]

text \<open>\<open>f"{i:X}"\<close> and \<open>f"{i}"\<close> on an integer.\<close>

definition format_X :: "int \<Rightarrow> string" where
  "format_X i = (if i < 0 then CHR ''-'' # hex_upper (- i) else hex_upper i)"

definition format_d :: "int \<Rightarrow> string" where
  "format_d i = (if i < 0 then CHR ''-'' # dec_digits (- i) else dec_digits i)"

text \<open>\<open>str(e)\<close>: the message of an exception. For \<open>OSError\<close> Python renders
  \<open>[Errno n] text\<close>.\<close>

fun str_exc :: "exc \<Rightarrow> string" where
  "str_exc (ValueError m) = m"
| "str_exc (RTTBridgeError m) = m"
| "str_exc (JLinkRTTException m) = m"
| "str_exc (JLinkException m) = m"
| "str_exc (UnicodeDecodeError m) = m"
| "str_exc (AttributeError m) = m"
| "str_exc (OSError n m) = ''[Errno '' @ format_d n @ ''] '' @ m"
| "str_exc (OtherException m) = m"

subsection \<open>String methods\<close>

text \<open>\<open>str.isspace\<close> on the code points below 256: TAB, LF, VT, FF, CR, the separators
  0x1C..0x1F, space, NEL (0x85) and the no-break space (0xA0).\<close>

definition py_isspace :: "char \<Rightarrow> bool" where
  "py_isspace c = (of_char c \<in> {9, 10, 11, 12, 13, 28, 29, 30, 31, 32, 133, 160 :: nat})"

definition lstrip :: "string \<Rightarrow> string" where
  "lstrip s = dropWhile py_isspace s"

definition rstrip :: "string \<Rightarrow> string" where
  "rstrip s = rev (dropWhile py_isspace (rev s))"

definition strip :: "string \<Rightarrow> string" where
  "strip s = lstrip (rstrip s)"

text \<open>\<open>s.rstrip('\x00')\<close>\<close>

definition rstrip_nul :: "string \<Rightarrow> string" where
  "rstrip_nul s = rev (dropWhile (\<lambda>c. c = CHR 0x00) (rev s))"

text \<open>\<open>s.split(sep)\<close> for a one-character separator: never the empty list.\<close>

fun split_on :: "char \<Rightarrow> string \<Rightarrow> string list" where
  "split_on sep [] = [[]]"
| "split_on sep (c # cs) =
     (if c = sep then [] # split_on sep cs
      else (case split_on sep cs of
              [] \<Rightarrow> [[c]]
            | p # ps \<Rightarrow> (c # p) # ps))"

definition startswith :: "string \<Rightarrow> string \<Rightarrow> bool" where
  "startswith s p = prefix p s"

subsection \<open>\<open>int(s)\<close> and \<open>int(s, 16)\<close>\<close>

definition digit_val :: "nat \<Rightarrow> char \<Rightarrow> nat option" where
  "digit_val base c =
     (let n = (of_char c :: nat);
          v = (if 48 \<le> n \<and> n \<le> 57 then Some (n - 48)
               else if 97 \<le> n \<and> n \<le> 122 then Some (n - 87)
               else if 65 \<le> n \<and> n \<le> 90 then Some (n - 55)
               else None)
      in case v of None \<Rightarrow> None | Some d \<Rightarrow> if d < base then Some d else None)"

text \<open>A run of digits and underscores is well formed when every underscore stands
  between two digits and there is a digit at all; \<open>prev\<close> says that the character
  before was a digit.\<close>

fun underscores_ok :: "bool \<Rightarrow> string \<Rightarrow> bool" where
  "underscores_ok prev [] = prev"
| "underscores_ok prev (c # cs) =
     (if c = CHR ''_'' then prev \<and> underscores_ok False cs else underscores_ok True cs)"

text \<open>The value of the digits of a run, its underscores passed over.\<close>

fun digits_value :: "nat \<Rightarrow> int \<Rightarrow> string \<Rightarrow> int" where
  "digits_value base acc [] = acc"
| "digits_value base acc (c # cs) =
     (case digit_val base c of
        None \<Rightarrow> digits_value base acc cs
      | Some d \<Rightarrow> digits_value base (acc * int base + int d) cs)"

text \<open>\<open>repr(s)\<close> of a string of code points below 256. The quote is the double one
  when the string holds a single quote and no double one. A backslash and the quote
  are escaped, TAB, LF and CR are written \<open>\t\<close>, \<open>\n\<close>, \<open>\r\<close>, and every other code
  point that is not printable (the controls, DEL, 0x80..0xA0 and the soft hyphen 0xAD)
  is written \<open>\xhh\<close>.\<close>

definition lower_hex_digit :: "nat \<Rightarrow> char" where
  "lower_hex_digit d = (if d < 10 then char_of (48 + d) else char_of (87 + d))"

definition py_isprintable :: "char \<Rightarrow> bool" where
  "py_isprintable c =
     (let n = (of_char c :: nat) in (32 \<le> n \<and> n < 127) \<or> (161 \<le> n \<and> n \<noteq> 173))"

definition repr_char :: "char \<Rightarrow> char \<Rightarrow> string" where
  "repr_char q c =
     (if c = q \<or> c = CHR 0x5C then [CHR 0x5C, c]
      else if c = CHR 0x09 then [CHR 0x5C, CHR ''t'']
      else if c = CHR 0x0A then [CHR 0x5C, CHR ''n'']
      else if c = CHR 0x0D then [CHR 0x5C, CHR ''r'']
      else if py_isprintable c then [c]
      else [CHR 0x5C, CHR ''x'', lower_hex_digit (of_char c div 16),
            lower_hex_digit (of_char c mod 16)])"

definition py_repr :: "string \<Rightarrow> string" where
  "py_repr s =
     (let q = (if CHR 0x27 \<in> set s \<and> CHR 0x22 \<notin> set s then CHR 0x22 else CHR 0x27)
      in q # concat (map (repr_char q) s) @ [q])"

text \<open>What the conversion makes of the text after the sign: a value, no literal at
  all, or a literal with more digits than the interpreter's limit.\<close>

datatype literal = Value int | Invalid | TooLong nat

text \<open>The default of \<open>sys.get_int_max_str_digits()\<close>; it applies to a base that is not
  a power of two.\<close>

definition max_str_digits :: nat where
  "max_str_digits = 4300"

text \<open>The text after the sign: for base 16 an optional \<open>0x\<close>/\<open>0X\<close> (which may be
  followed by one underscore), then the run of digits and underscores. CPython 3.11
  reads that run first, refuses it when an underscore is misplaced or there is no
  digit, then counts its digits against the limit, and only then refuses what follows
  the run. (From 3.12 on the interpreter refuses what follows the run before it counts,
  so a run of more than 4300 digits followed by another character gives the other
  \<open>ValueError\<close> there.)\<close>

definition unsigned_literal :: "nat \<Rightarrow> string \<Rightarrow> literal" where
  "unsigned_literal base s =
     (let body = (if base = 16 \<and> (startswith s ''0x'' \<or> startswith s ''0X'') then
                    (case drop 2 s of
                       c # cs \<Rightarrow> if c = CHR ''_'' then cs else c # cs
                     | [] \<Rightarrow> [])
                  else s);
          run = takeWhile (\<lambda>c. c = CHR ''_'' \<or> digit_val base c \<noteq> None) body;
          digits = length (filter (\<lambda>c. c \<noteq> CHR ''_'') run)
      in if \<not> underscores_ok False run then Invalid
         else if base \<notin> {2, 4, 8, 16, 32} \<and> digits > max_str_digits then TooLong digits
         else if length run < length body then Invalid
         else Value (digits_value base 0 run))"

text \<open>\<open>int(s, base)\<close>: the value, or the \<open>ValueError\<close> Python raises. White space
  around the literal is dropped, then comes an optional sign. The message for a text
  that is no literal quotes \<open>repr(s)\<close>, cut after 200 characters (\<open>%.200R\<close>).\<close>

definition py_int :: "nat \<Rightarrow> string \<Rightarrow> exc + int" where
  "py_int base s =
     (let t = strip s;
          neg = (t \<noteq> [] \<and> hd t = CHR ''-'');
          body = (if t \<noteq> [] \<and> (hd t = CHR ''-'' \<or> hd t = CHR ''+'') then tl t else t)
      in case unsigned_literal base body of
           Value v \<Rightarrow> Inr (if neg then - v else v)
         | TooLong n \<Rightarrow>
             Inl (ValueError (''Exceeds the limit ('' @ format_d (int max_str_digits)
                              @ '' digits) for integer string conversion: value has ''
                              @ format_d (int n)
                              @ '' digits; use sys.set_int_max_str_digits() to increase the limit''))
         | Invalid \<Rightarrow>
             Inl (ValueError (''invalid literal for int() with base '' @ format_d (int base)
                              @ '': '' @ take 200 (py_repr s))))"

section \<open>Argument validation\<close>

definition validate_speed :: "int \<Rightarrow> exc + int" where
  "validate_speed speed =
     (if speed < 5 then
        Inl (ValueError (''Speed too low: '' @ format_d speed @ '' kHz (minimum: 5 kHz)''))
      else if speed > 50000 then
        Inl (ValueError (''Speed too high: '' @ format_d speed @ '' kHz (maximum: 50000 kHz)''))
      else Inr speed)"

text \<open>One token of a search range: base 16 when it starts with \<open>0x\<close> or \<open>0X\<close>,
  else base 10.\<close>

definition range_token :: "string \<Rightarrow> exc + int" where
  "range_token t =
     (if startswith t ''0x'' then py_int 16 t
      else if startswith t ''0X'' then py_int 16 t
      else py_int 10 t)"

text \<open>\<open>parse_address\<close> returns \<open>(addr, None)\<close> for one address and \<open>(start, size)\<close> for a
  search range.\<close>

definition parse_address :: "string \<Rightarrow> exc + (int \<times> int option)" where
  "parse_address address_str0 =
     (if address_str0 = [] \<or> strip address_str0 = [] then
        Inl (ValueError ''Empty address string'')
      else
        let address_str = strip address_str0 in
        if CHR '','' \<in> set address_str then
          (let parts = split_on CHR '','' address_str in
           if length parts \<noteq> 2 then
             Inl (ValueError (''Invalid search range format: '' @ squote @ address_str @ squote
                              @ '' (expected '' @ squote @ ''start,size'' @ squote @ '')''))
           else
             let start_str = strip (parts ! 0); size_str = strip (parts ! 1) in
             if start_str = [] \<or> size_str = [] then
               Inl (ValueError (''Invalid search range format: '' @ squote @ address_str @ squote
                                @ '' (both start and size required)''))
             else
               (case range_token start_str of
                  Inl e \<Rightarrow>
                    Inl (ValueError (''Invalid number format in search range '' @ squote
                                     @ address_str @ squote @ '': '' @ str_exc e))
                | Inr start \<Rightarrow>
                   (case range_token size_str of
                      Inl e \<Rightarrow>
                        Inl (ValueError (''Invalid number format in search range '' @ squote
                                         @ address_str @ squote @ '': '' @ str_exc e))
                    | Inr size_v \<Rightarrow>
                        if start < 0 then
                          Inl (ValueError (''Invalid start address: 0x'' @ format_X start
                                           @ '' (must be >= 0)''))
                        else if size_v \<le> 0 then
                          Inl (ValueError (''Invalid size: 0x'' @ format_X size_v
                                           @ '' (must be > 0)''))
                        else if size_v > 0xFFFFFFFF then
                          Inl (ValueError (''Size too large: 0x'' @ format_X size_v
                                           @ '' (maximum: 0xFFFFFFFF)''))
                        else Inr (start, Some size_v))))
        else
          (case (if startswith address_str ''0x'' \<or> startswith address_str ''0X''
                 then py_int 16 address_str else py_int 10 address_str) of
             Inl e \<Rightarrow>
               Inl (ValueError (''Invalid address format '' @ squote @ address_str @ squote
                                @ '': '' @ str_exc e))
           | Inr addr \<Rightarrow>
               if addr < 0 then
                 Inl (ValueError (''Invalid address: 0x'' @ format_X addr @ '' (must be >= 0)''))
               else if addr > 0xFFFFFFFFFFFFFFFF then
                 Inl (ValueError (''Address too large: 0x'' @ format_X addr))
               else Inr (addr, None)))"

text \<open>The three \<open>ValueError\<close>s of the single-address branch of \<open>parse_address\<close>
  (\<open>Invalid address format\<close>, \<open>Invalid address\<close>, \<open>Address too large\<close>), as opposed to
  those of the search-range branch.\<close>

definition single_address_error :: "exc + (int \<times> int option) \<Rightarrow> bool" where
  "single_address_error r =
     (case r of
        Inl (ValueError m) \<Rightarrow>
          prefix ''Invalid address format '' m \<or> prefix ''Invalid address: 0x'' m
          \<or> prefix ''Address too large: 0x'' m
      | _ \<Rightarrow> False)"

section \<open>The probe session and the host\<close>

text \<open>
  The program talks to two collaborators it does not implement: the pylink \<open>JLink\<close> object
  and the operating system. Both are taken as parameters: a record of operations over an
  environment state \<open>'e\<close>, each returning its result (or the exception it raises) and the
  next environment state. What the program itself owns is kept in the \<open>world\<close>: the log of
  SDK calls, the two output streams (one entry per \<open>print\<close>), a clock in milliseconds that
  \<open>time.sleep\<close> advances, the open file descriptors and the file system entries.
\<close>

datatype pyname = Str string | Bytes string

text \<open>A buffer descriptor as the program reads it: \<open>desc.name\<close> (a property, whose
  evaluation may raise) and \<open>desc.SizeOfBuffer\<close>.\<close>

record desc =
  desc_name :: "exc + pyname"
  SizeOfBuffer :: int

datatype rtt_start_arg = AutoDetect | BlockAddress int | SearchRanges "(int \<times> int) list"

datatype jlink_call =
    NewJLink
  | Open "int option"
  | Opened
  | Connected
  | TargetConnected
  | ProductName
  | SerialNumber
  | SetTif
  | SetSpeed int
  | Connect string
  | RttStart rtt_start_arg
  | RttStop
  | Close
  | RttIsActive
  | RttGetNumUpBuffers
  | RttGetNumDownBuffers
  | RttGetBufDescriptor int bool
  | RttRead int int
  | RttWrite int "nat list"

type_synonym os_error = "int \<times> string"

record 'e ops =
  new_JLink :: "'e \<Rightarrow> (exc + unit) \<times> 'e"
  jl_open :: "int option \<Rightarrow> 'e \<Rightarrow> (exc + unit) \<times> 'e"
  opened :: "'e \<Rightarrow> (exc + bool) \<times> 'e"
  connected :: "'e \<Rightarrow> (exc + bool) \<times> 'e"
  target_connected :: "'e \<Rightarrow> (exc + bool) \<times> 'e"
  product_name :: "'e \<Rightarrow> (exc + string) \<times> 'e"
  serial_number :: "'e \<Rightarrow> (exc + int) \<times> 'e"
  set_tif :: "'e \<Rightarrow> (exc + unit) \<times> 'e"
  set_speed :: "int \<Rightarrow> 'e \<Rightarrow> (exc + unit) \<times> 'e"
  connect :: "string \<Rightarrow> 'e \<Rightarrow> (exc + unit) \<times> 'e"
  rtt_start :: "rtt_start_arg \<Rightarrow> 'e \<Rightarrow> (exc + unit) \<times> 'e"
  rtt_stop :: "'e \<Rightarrow> (exc + unit) \<times> 'e"
  jl_close :: "'e \<Rightarrow> (exc + unit) \<times> 'e"
  has_rtt_is_active :: bool
  rtt_is_active :: "'e \<Rightarrow> (exc + bool) \<times> 'e"
  rtt_get_num_up_buffers :: "'e \<Rightarrow> (exc + int) \<times> 'e"
  rtt_get_num_down_buffers :: "'e \<Rightarrow> (exc + int) \<times> 'e"
  rtt_get_buf_descriptor :: "int \<Rightarrow> bool \<Rightarrow> 'e \<Rightarrow> (exc + desc option) \<times> 'e"
  rtt_read :: "int \<Rightarrow> int \<Rightarrow> 'e \<Rightarrow> (exc + nat list) \<times> 'e"
  rtt_write :: "int \<Rightarrow> nat list \<Rightarrow> 'e \<Rightarrow> (exc + int) \<times> 'e"
  decode_utf8_replace :: "string \<Rightarrow> string"
  openpty :: "'e \<Rightarrow> (os_error + int \<times> int) \<times> 'e"
  ttyname :: "int \<Rightarrow> 'e \<Rightarrow> (os_error + string) \<times> 'e"
  os_write :: "int \<Rightarrow> nat list \<Rightarrow> 'e \<Rightarrow> (os_error + int) \<times> 'e"
  os_read :: "int \<Rightarrow> int \<Rightarrow> 'e \<Rightarrow> (os_error + nat list) \<times> 'e"
  select_readable :: "int \<Rightarrow> 'e \<Rightarrow> (os_error + bool) \<times> 'e"
  poll_signal :: "'e \<Rightarrow> int option \<times> 'e"
  pts_node :: "int \<Rightarrow> string option"

datatype node = Symlink string | Directory | OtherFile

record 'e world =
  env :: 'e
  calls :: "jlink_call list"
  stdout :: "string list"
  stderr :: "string list"
  clock :: nat
  open_fds :: "int set"
  fs :: "string \<Rightarrow> node option"

definition call :: "jlink_call \<Rightarrow> ('e \<Rightarrow> 'a \<times> 'e) \<Rightarrow> 'e world \<Rightarrow> 'a \<times> 'e world" where
  "call c f w = (case f (env w) of (r, e') \<Rightarrow> (r, w\<lparr>env := e', calls := calls w @ [c]\<rparr>))"

text \<open>An operating-system operation of the environment; its \<open>OSError\<close> keeps errno and
  text.\<close>

definition os_call :: "('e \<Rightarrow> (os_error + 'a) \<times> 'e) \<Rightarrow> 'e world \<Rightarrow> (os_error + 'a) \<times> 'e world" where
  "os_call f w = (case f (env w) of (r, e') \<Rightarrow> (r, w\<lparr>env := e'\<rparr>))"

definition print_out :: "string \<Rightarrow> 'e world \<Rightarrow> 'e world" where
  "print_out s w = w\<lparr>stdout := stdout w @ [s]\<rparr>"

definition print_err :: "string \<Rightarrow> 'e world \<Rightarrow> 'e world" where
  "print_err s w = w\<lparr>stderr := stderr w @ [s]\<rparr>"

definition sleep_ms :: "nat \<Rightarrow> 'e world \<Rightarrow> 'e world" where
  "sleep_ms d w = w\<lparr>clock := clock w + d\<rparr>"

section \<open>Buffer lookup\<close>

text \<open>\<open>is_rtt_active\<close>: the SDK's own \<open>rtt_is_active\<close> when the object has it, else
  "the up-buffer count is positive"; any exception means inactive.\<close>

definition is_rtt_active :: "'e ops \<Rightarrow> 'e world \<Rightarrow> bool \<times> 'e world" where
  "is_rtt_active jl w =
     (if has_rtt_is_active jl then
        (case call RttIsActive (rtt_is_active jl) w of
           (Inl e, w1) \<Rightarrow> (False, w1)
         | (Inr b, w1) \<Rightarrow> (b, w1))
      else
        (case call RttGetNumUpBuffers (rtt_get_num_up_buffers jl) w of
           (Inl e, w1) \<Rightarrow> (False, w1)
         | (Inr num_buffers, w1) \<Rightarrow> (num_buffers > 0, w1)))"

text \<open>\<open>desc.name.rstrip('\x00')\<close> for a \<open>str\<close>, else
  \<open>desc.name.decode('utf-8', errors='replace').rstrip('\x00')\<close>.\<close>

definition buffer_name_of :: "'e ops \<Rightarrow> desc \<Rightarrow> exc + string" where
  "buffer_name_of jl d =
     (case desc_name d of
        Inl e \<Rightarrow> Inl e
      | Inr (Str s) \<Rightarrow> Inr (rstrip_nul s)
      | Inr (Bytes b) \<Rightarrow> Inr (rstrip_nul (decode_utf8_replace jl b)))"

text \<open>The exceptions the descriptor scan skips over:
  \<open>except (pylink.errors.JLinkRTTException, UnicodeDecodeError)\<close>.\<close>

fun skipped_in_scan :: "exc \<Rightarrow> bool" where
  "skipped_in_scan (JLinkRTTException m) = True"
| "skipped_in_scan (UnicodeDecodeError m) = True"
| "skipped_in_scan e = False"

definition py_range :: "int \<Rightarrow> int list" where
  "py_range n = map int [0..<nat n]"

text \<open>\<open>for index in range(num_buffers)\<close>: \<open>Inr None\<close> when the loop ends without a
  match, \<open>Inr (Some (index, desc))\<close> for the \<open>return\<close> inside it, \<open>Inl\<close> for an exception
  that leaves the loop.\<close>

fun scan_buffers ::
  "'e ops \<Rightarrow> string \<Rightarrow> bool \<Rightarrow> int list \<Rightarrow> 'e world \<Rightarrow> (exc + (int \<times> desc) option) \<times> 'e world" where
  "scan_buffers jl nm up [] w = (Inr None, w)"
| "scan_buffers jl nm up (index # rest) w =
     (case call (RttGetBufDescriptor index up) (rtt_get_buf_descriptor jl index up) w of
        (Inl e, w1) \<Rightarrow>
          if skipped_in_scan e then scan_buffers jl nm up rest w1 else (Inl e, w1)
      | (Inr None, w1) \<Rightarrow> scan_buffers jl nm up rest w1
      | (Inr (Some d), w1) \<Rightarrow>
          (case buffer_name_of jl d of
             Inl e \<Rightarrow>
               if skipped_in_scan e then scan_buffers jl nm up rest w1 else (Inl e, w1)
           | Inr buffer_name \<Rightarrow>
               if buffer_name = nm then
                 (if SizeOfBuffer d = 0 then
                    (Inl (RTTBridgeError (''Buffer '' @ squote @ nm @ squote
                                          @ '' has invalid size (0)'')), w1)
                  else (Inr (Some (index, d)), w1))
               else scan_buffers jl nm up rest w1))"

definition rtt_get_num_buffers :: "'e ops \<Rightarrow> bool \<Rightarrow> 'e world \<Rightarrow> (exc + int) \<times> 'e world" where
  "rtt_get_num_buffers jl up w =
     (if up then call RttGetNumUpBuffers (rtt_get_num_up_buffers jl) w
      else call RttGetNumDownBuffers (rtt_get_num_down_buffers jl) w)"

text \<open>What one pass through the retry loop's body does: \<open>Retry\<close> for \<open>continue\<close> (after
  the 200 ms sleep), \<open>Done r\<close> for \<open>return r\<close>.\<close>

datatype attempt_result = Retry | Done "int \<times> desc option"

text \<open>The body of the \<open>try\<close> of one attempt, before its \<open>except\<close> clauses.\<close>

definition attempt_body ::
  "'e ops \<Rightarrow> string \<Rightarrow> bool \<Rightarrow> int \<Rightarrow> int \<Rightarrow> 'e world \<Rightarrow> (exc + attempt_result) \<times> 'e world" where
  "attempt_body jl nm up max_retries attempt w =
     (case is_rtt_active jl w of
        (False, w1) \<Rightarrow>
          if attempt < max_retries - 1 then (Inr Retry, sleep_ms 200 w1)
          else (Inl (RTTBridgeError
                  ''RTT is not active. Ensure RTT has been started successfully.''), w1)
      | (True, w1) \<Rightarrow>
          (case rtt_get_num_buffers jl up w1 of
             (Inl e, w2) \<Rightarrow> (Inl e, w2)
           | (Inr num_buffers, w2) \<Rightarrow>
               if num_buffers = 0 then
                 (if attempt < max_retries - 1 then (Inr Retry, sleep_ms 200 w2)
                  else (Inl (RTTBridgeError (''No '' @ (if up then ''UP'' else ''DOWN'')
                                             @ '' buffers available'')), w2))
               else
                 (case scan_buffers jl nm up (py_range num_buffers) w2 of
                    (Inl e, w3) \<Rightarrow> (Inl e, w3)
                  | (Inr (Some (index, d)), w3) \<Rightarrow> (Inr (Done (index, Some d)), w3)
                  | (Inr None, w3) \<Rightarrow> (Inr (Done (- 1, None)), w3))))"

text \<open>\<open>RTTBridgeError(f"Unexpected error while searching for buffer '{name}': {e}")\<close>\<close>

definition unexpected_search_error :: "string \<Rightarrow> exc \<Rightarrow> exc" where
  "unexpected_search_error nm e =
     RTTBridgeError (''Unexpected error while searching for buffer '' @ squote @ nm @ squote
                     @ '': '' @ str_exc e)"

text \<open>The \<open>except\<close> clauses of the attempt: a \<open>JLinkRTTException\<close> is retried or, on the
  last attempt, reported; every other \<open>Exception\<close>, the function's own
  \<open>RTTBridgeError\<close>s included, is wrapped.\<close>

definition attempt ::
  "'e ops \<Rightarrow> string \<Rightarrow> bool \<Rightarrow> int \<Rightarrow> int \<Rightarrow> 'e world \<Rightarrow> (exc + attempt_result) \<times> 'e world" where
  "attempt jl nm up max_retries attempt_no w =
     (case attempt_body jl nm up max_retries attempt_no w of
        (Inr r, w1) \<Rightarrow> (Inr r, w1)
      | (Inl e, w1) \<Rightarrow>
          (case e of
             JLinkRTTException m \<Rightarrow>
               if attempt_no < max_retries - 1 then (Inr Retry, sleep_ms 200 w1)
               else (Inl (RTTBridgeError (''Failed to query RTT buffers: '' @ str_exc e)), w1)
           | _ \<Rightarrow> (Inl (unexpected_search_error nm e), w1)))"

text \<open>\<open>for attempt in range(max_retries)\<close>, then the final \<open>return -1, None\<close>.\<close>

fun find_attempts ::
  "'e ops \<Rightarrow> string \<Rightarrow> bool \<Rightarrow> int \<Rightarrow> int list \<Rightarrow> 'e world \<Rightarrow> (exc + int \<times> desc option) \<times> 'e world" where
  "find_attempts jl nm up max_retries [] w = (Inr (- 1, None), w)"
| "find_attempts jl nm up max_retries (a # rest) w =
     (case attempt jl nm up max_retries a w of
        (Inl e, w1) \<Rightarrow> (Inl e, w1)
      | (Inr Retry, w1) \<Rightarrow> find_attempts jl nm up max_retries rest w1
      | (Inr (Done r), w1) \<Rightarrow> (Inr r, w1))"

definition find_buffer_by_name ::
  "'e ops \<Rightarrow> string \<Rightarrow> bool \<Rightarrow> int \<Rightarrow> 'e world \<Rightarrow> (exc + int \<times> desc option) \<times> 'e world" where
  "find_buffer_by_name jl name0 up max_retries w =
     (if name0 = [] \<or> strip name0 = [] then (Inr (- 1, None), w)
      else find_attempts jl (strip name0) up max_retries (py_range max_retries) w)"

section \<open>Listing the buffers\<close>

text \<open>The exceptions that \<open>print_buffers\<close> reports per descriptor:
  \<open>except (pylink.errors.JLinkRTTException, UnicodeDecodeError, AttributeError)\<close>.\<close>

fun reported_in_listing :: "exc \<Rightarrow> bool" where
  "reported_in_listing (JLinkRTTException m) = True"
| "reported_in_listing (UnicodeDecodeError m) = True"
| "reported_in_listing (AttributeError m) = True"
| "reported_in_listing e = False"

definition descriptor_error_line :: "int \<Rightarrow> exc \<Rightarrow> string" where
  "descriptor_error_line i e =
     ''  #'' @ format_d i @ '' (error reading descriptor: '' @ str_exc e @ '')''"

definition descriptor_line :: "int \<Rightarrow> string \<Rightarrow> desc \<Rightarrow> string" where
  "descriptor_line i nm d =
     ''  #'' @ format_d i @ '' '' @ nm @ '' (size='' @ format_d (SizeOfBuffer d) @ '')''"

text \<open>\<open>for i in range(num)\<close> of \<open>print_buffers\<close>: every line goes to standard output
  (\<open>print\<close> without \<open>file=\<close>). \<open>Some e\<close> is an exception that leaves the loop.\<close>

fun list_buffers ::
  "'e ops \<Rightarrow> bool \<Rightarrow> int list \<Rightarrow> 'e world \<Rightarrow> exc option \<times> 'e world" where
  "list_buffers jl up [] w = (None, w)"
| "list_buffers jl up (i # rest) w =
     (case call (RttGetBufDescriptor i up) (rtt_get_buf_descriptor jl i up) w of
        (Inl e, w1) \<Rightarrow>
          if reported_in_listing e
          then list_buffers jl up rest (print_out (descriptor_error_line i e) w1)
          else (Some e, w1)
      | (Inr None, w1) \<Rightarrow> list_buffers jl up rest w1
      | (Inr (Some d), w1) \<Rightarrow>
          (case buffer_name_of jl d of
             Inl e \<Rightarrow>
               if reported_in_listing e
               then list_buffers jl up rest (print_out (descriptor_error_line i e) w1)
               else (Some e, w1)
           | Inr nm \<Rightarrow> list_buffers jl up rest (print_out (descriptor_line i nm d) w1)))"

text \<open>One direction of the listing: the heading, then the inner \<open>try\<close>. \<open>Inr False\<close> is
  \<open>return False\<close> from the \<open>JLinkRTTException\<close> handler, \<open>Inl e\<close> an exception that goes
  on to the outer handler.\<close>

definition print_direction :: "'e ops \<Rightarrow> bool \<Rightarrow> 'e world \<Rightarrow> (exc + bool) \<times> 'e world" where
  "print_direction jl up w =
     (let w0 = print_out (if up then ''Up-buffers:'' else ''Down-buffers:'') w;
          handler = (\<lambda>e w'.
            case e of
              JLinkRTTException m \<Rightarrow>
                (Inr False,
                 print_err ((if up then ''  Error reading up-buffers: ''
                             else ''  Error reading down-buffers: '') @ str_exc e) w')
            | _ \<Rightarrow> (Inl e, w'))
      in case rtt_get_num_buffers jl up w0 of
           (Inl e, w1) \<Rightarrow> handler e w1
         | (Inr num, w1) \<Rightarrow>
             if num = 0 then (Inr True, print_out ''  (none)'' w1)
             else (case list_buffers jl up (py_range num) w1 of
                     (None, w2) \<Rightarrow> (Inr True, w2)
                   | (Some e, w2) \<Rightarrow> handler e w2))"

definition print_buffers :: "'e ops \<Rightarrow> 'e world \<Rightarrow> bool \<times> 'e world" where
  "print_buffers jl w =
     (case is_rtt_active jl w of
        (False, w1) \<Rightarrow> (False, print_err ''Error: RTT is not active'' w1)
      | (True, w1) \<Rightarrow>
          (case print_direction jl True w1 of
             (Inl e, w2) \<Rightarrow> (False, print_err (''Error printing buffers: '' @ str_exc e) w2)
           | (Inr False, w2) \<Rightarrow> (False, w2)
           | (Inr True, w2) \<Rightarrow>
               (case print_direction jl False w2 of
                  (Inl e, w3) \<Rightarrow> (False, print_err (''Error printing buffers: '' @ str_exc e) w3)
                | (Inr False, w3) \<Rightarrow> (False, w3)
                | (Inr True, w3) \<Rightarrow> (True, w3))))"

section \<open>Connection check\<close>

text \<open>\<open>except pylink.errors.JLinkException as e\<close> of \<open>verify_jlink_connection\<close>; any
  other exception passes through.\<close>

definition verify_handler :: "exc \<Rightarrow> exc" where
  "verify_handler e =
     (if is_JLinkException e then RTTBridgeError (''J-Link connection error: '' @ str_exc e)
      else e)"

definition device_info_error :: "exc \<Rightarrow> exc" where
  "device_info_error e =
     RTTBridgeError (''Failed to get J-Link device information: '' @ str_exc e)"

text \<open>\<open>verify_jlink_connection\<close>: \<open>None\<close> when it returns, \<open>Some e\<close> when it raises.\<close>

definition verify_jlink_connection :: "'e ops \<Rightarrow> 'e world \<Rightarrow> exc option \<times> 'e world" where
  "verify_jlink_connection jl w =
     (case call Opened (opened jl) w of
        (Inl e, w1) \<Rightarrow> (Some (verify_handler e), w1)
      | (Inr False, w1) \<Rightarrow> (Some (RTTBridgeError ''J-Link DLL is not open''), w1)
      | (Inr True, w1) \<Rightarrow>
     (case call Connected (connected jl) w1 of
        (Inl e, w2) \<Rightarrow> (Some (verify_handler e), w2)
      | (Inr False, w2) \<Rightarrow>
          (Some (RTTBridgeError ''J-Link is not connected to target device''), w2)
      | (Inr True, w2) \<Rightarrow>
     (case call TargetConnected (target_connected jl) w2 of
        (Inl e, w3) \<Rightarrow> (Some (verify_handler e), w3)
      | (Inr False, w3) \<Rightarrow> (Some (RTTBridgeError ''Target device is not connected''), w3)
      | (Inr True, w3) \<Rightarrow>
     (case call ProductName (product_name jl) w3 of
        (Inl e, w4) \<Rightarrow> (Some (device_info_error e), w4)
      | (Inr pn, w4) \<Rightarrow>
     (case call SerialNumber (serial_number jl) w4 of
        (Inl e, w5) \<Rightarrow> (Some (device_info_error e), w5)
      | (Inr sn, w5) \<Rightarrow> (None, w5))))))"

section \<open>Descriptors and the file system\<close>

definition EBADF :: int where "EBADF = 9"
definition EIO :: int where "EIO = 5"

definition os_error_exc :: "os_error \<Rightarrow> exc" where
  "os_error_exc oe = OSError (fst oe) (snd oe)"

text \<open>\<open>os.close\<close>: closing a descriptor that is not open raises \<open>OSError(EBADF)\<close>.
  \<open>pts_node jl fd\<close> is the slave node that the system removes from the file system when
  the descriptor \<open>fd\<close> is closed: on Linux the entry \<open>/dev/pts/N\<close> of a PTY goes away
  with its master; it is \<open>None\<close> for any other descriptor, and for every descriptor on a
  system whose terminal nodes stay (macOS).\<close>

definition os_close :: "'e ops \<Rightarrow> int \<Rightarrow> 'e world \<Rightarrow> (os_error + unit) \<times> 'e world" where
  "os_close jl fd w =
     (if fd \<in> open_fds w then
        (Inr (), w\<lparr>open_fds := open_fds w - {fd},
                    fs := (case pts_node jl fd of
                             None \<Rightarrow> fs w
                           | Some node_path \<Rightarrow> (fs w)(node_path := None))\<rparr>)
      else (Inl (EBADF, ''Bad file descriptor''), w))"

text \<open>Paths are keys of the file system map. \<open>os.path.exists\<close> follows symbolic links (up
  to the system's limit of 40) and is false for a dangling one; \<open>os.path.islink\<close> looks
  at the entry itself.\<close>

fun resolves :: "nat \<Rightarrow> (string \<Rightarrow> node option) \<Rightarrow> string \<Rightarrow> bool" where
  "resolves 0 f p = False"
| "resolves (Suc n) f p =
     (case f p of
        None \<Rightarrow> False
      | Some (Symlink t) \<Rightarrow> resolves n f t
      | Some other \<Rightarrow> True)"

definition path_exists :: "'e world \<Rightarrow> string \<Rightarrow> bool" where
  "path_exists w p = resolves 41 (fs w) p"

definition path_islink :: "'e world \<Rightarrow> string \<Rightarrow> bool" where
  "path_islink w p = (case fs w p of Some (Symlink t) \<Rightarrow> True | _ \<Rightarrow> False)"

definition os_remove :: "string \<Rightarrow> 'e world \<Rightarrow> (os_error + unit) \<times> 'e world" where
  "os_remove p w =
     (case fs w p of
        None \<Rightarrow> (Inl (2, ''No such file or directory''), w)
      | Some Directory \<Rightarrow> (Inl (21, ''Is a directory''), w)
      | Some other \<Rightarrow> (Inr (), w\<lparr>fs := (fs w)(p := None)\<rparr>))"

definition os_symlink :: "string \<Rightarrow> string \<Rightarrow> 'e world \<Rightarrow> (os_error + unit) \<times> 'e world" where
  "os_symlink target p w =
     (case fs w p of
        Some n \<Rightarrow> (Inl (17, ''File exists''), w)
      | None \<Rightarrow> (Inr (), w\<lparr>fs := (fs w)(p \<mapsto> Symlink target)\<rparr>))"

text \<open>\<open>os.makedirs(d, mode=0o755, exist_ok=True)\<close>\<close>

definition os_makedirs :: "string \<Rightarrow> 'e world \<Rightarrow> (os_error + unit) \<times> 'e world" where
  "os_makedirs d w =
     (case fs w d of
        None \<Rightarrow> (Inr (), w\<lparr>fs := (fs w)(d \<mapsto> Directory)\<rparr>)
      | Some Directory \<Rightarrow> (Inr (), w)
      | Some other \<Rightarrow> (Inl (17, ''File exists''), w))"

text \<open>\<open>os.path.dirname\<close> (posixpath): everything up to the last slash, without trailing
  slashes unless it consists of slashes only.\<close>

definition dirname :: "string \<Rightarrow> string" where
  "dirname p =
     (let head = rev (dropWhile (\<lambda>c. c \<noteq> CHR ''/'') (rev p))
      in if head \<noteq> [] \<and> head \<noteq> replicate (length head) CHR ''/''
         then rev (dropWhile (\<lambda>c. c = CHR ''/'') (rev head))
         else head)"

section \<open>The pseudo-terminal and its symlink\<close>

text \<open>\<open>create_pty\<close>. Both descriptors \<open>pty.openpty\<close> returns are open afterwards,
  and the slave node of the new PTY is in the file system.\<close>

definition create_pty :: "'e ops \<Rightarrow> 'e world \<Rightarrow> (exc + int \<times> int \<times> string) \<times> 'e world" where
  "create_pty jl w =
     (let outer = (\<lambda>oe. RTTBridgeError (''Failed to create PTY: '' @ str_exc (os_error_exc oe)))
      in case os_call (openpty jl) w of
           (Inl oe, w1) \<Rightarrow> (Inl (outer oe), w1)
         | (Inr (master_fd, slave_fd), w1') \<Rightarrow>
             (let w1 = w1'\<lparr>open_fds := open_fds w1' \<union> {master_fd, slave_fd},
                            fs := (case pts_node jl master_fd of
                                     None \<Rightarrow> fs w1'
                                   | Some node_path \<Rightarrow> (fs w1')(node_path \<mapsto> OtherFile))\<rparr> in
              if master_fd < 0 \<or> slave_fd < 0 then
                (Inl (RTTBridgeError ''Failed to create PTY: invalid file descriptors''), w1)
              else
                (case os_call (ttyname jl slave_fd) w1 of
                   (Inr pty_name, w2) \<Rightarrow>
                     if pty_name = [] then (Inl (RTTBridgeError ''Failed to get PTY name''), w2)
                     else (Inr (master_fd, slave_fd, pty_name), w2)
                 | (Inl oe, w2) \<Rightarrow>
                     (case os_close jl master_fd w2 of
                        (Inl oe1, w3) \<Rightarrow> (Inl (outer oe1), w3)
                      | (Inr u, w3) \<Rightarrow>
                          (case os_close jl slave_fd w3 of
                             (Inl oe2, w4) \<Rightarrow> (Inl (outer oe2), w4)
                           | (Inr u', w4) \<Rightarrow>
                               (Inl (RTTBridgeError (''Failed to get PTY name: ''
                                                     @ str_exc (os_error_exc oe))), w4))))))"

text \<open>\<open>create_symlink\<close>: \<open>None\<close> when it returns, \<open>Some e\<close> when it raises.\<close>

definition create_symlink :: "string \<Rightarrow> string \<Rightarrow> 'e world \<Rightarrow> exc option \<times> 'e world" where
  "create_symlink target link_path w =
     (let outer = (\<lambda>oe. RTTBridgeError (''Failed to create symlink '' @ squote @ link_path
                                          @ squote @ '': '' @ str_exc (os_error_exc oe)));
          make_link = (\<lambda>w'. case os_symlink target link_path w' of
                               (Inl oe, w'') \<Rightarrow> (Some (outer oe), w'')
                             | (Inr u, w'') \<Rightarrow> (None, w''));
          make_dir_and_link = (\<lambda>w'.
            let link_dir = dirname link_path in
            if link_dir \<noteq> [] \<and> \<not> path_exists w' link_dir then
              (case os_makedirs link_dir w' of
                 (Inl oe, w'') \<Rightarrow>
                   (Some (RTTBridgeError (''Failed to create directory for symlink: ''
                                          @ str_exc (os_error_exc oe))), w'')
               | (Inr u, w'') \<Rightarrow> make_link w'')
            else make_link w')
      in if path_exists w link_path then
           (if path_islink w link_path then
              (case os_remove link_path w of
                 (Inl oe, w1) \<Rightarrow> (Some (outer oe), w1)
               | (Inr u, w1) \<Rightarrow> make_dir_and_link w1)
            else (Some (RTTBridgeError (''Path exists and is not a symlink: '' @ link_path)), w))
         else make_dir_and_link w)"

section \<open>The relay loop\<close>

text \<open>The two variables of \<open>main\<close> that the loop and the signal handler change.\<close>

record loop_state =
  do_exit :: bool
  consecutive_errors :: nat

definition newline :: char where
  "newline = CHR 0x0A"

text \<open>\<open>signal_handler(signum, frame)\<close>, installed for SIGINT, SIGTERM and SIGQUIT.\<close>

definition signal_handler :: "int \<Rightarrow> loop_state \<Rightarrow> 'e world \<Rightarrow> loop_state \<times> 'e world" where
  "signal_handler signum st w =
     (st\<lparr>do_exit := True\<rparr>, print_err (newline # ''Shutting down...'') w)"

datatype flow = Continue | Break | Raise exc

text \<open>The check at the head of each iteration: \<open>jlink.connected()\<close>, then
  \<open>jlink.target_connected()\<close>; \<open>False\<close> stands for \<open>break\<close>.\<close>

definition connection_check :: "'e ops \<Rightarrow> 'e world \<Rightarrow> bool \<times> 'e world" where
  "connection_check jl w =
     (case call Connected (connected jl) w of
        (Inl e, w1) \<Rightarrow> (False, print_err (newline # ''Error: Connection check failed'') w1)
      | (Inr False, w1) \<Rightarrow> (False, print_err (newline # ''Error: Connection lost'') w1)
      | (Inr True, w1) \<Rightarrow>
          (case call TargetConnected (target_connected jl) w1 of
             (Inl e, w2) \<Rightarrow> (False, print_err (newline # ''Error: Connection check failed'') w2)
           | (Inr False, w2) \<Rightarrow> (False, print_err (newline # ''Error: Connection lost'') w2)
           | (Inr True, w2) \<Rightarrow> (True, w2)))"

datatype up_flow = UpDone | UpContinue | UpBreak | UpRaise exc

definition max_consecutive_errors :: nat where
  "max_consecutive_errors = 10"

text \<open>The \<open>except\<close> clauses of the up direction, in their order:
  \<open>JLinkRTTException\<close> (no data), \<open>JLinkException\<close> (counted), anything else leaves the
  loop.\<close>

definition up_handlers :: "exc \<Rightarrow> loop_state \<Rightarrow> 'e world \<Rightarrow> up_flow \<times> loop_state \<times> 'e world" where
  "up_handlers e st w =
     (case e of
        JLinkRTTException m \<Rightarrow> (UpDone, st\<lparr>consecutive_errors := 0\<rparr>, w)
      | JLinkException m \<Rightarrow>
          (let st1 = st\<lparr>consecutive_errors := consecutive_errors st + 1\<rparr> in
           if consecutive_errors st1 \<ge> max_consecutive_errors then
             (UpBreak, st1,
              print_err (newline # ''Error: Too many consecutive J-Link errors: '' @ str_exc e) w)
           else (UpContinue, st1, sleep_ms 100 w))
      | _ \<Rightarrow> (UpRaise e, st, w))"

definition partial_write_warning :: "string \<Rightarrow> int \<Rightarrow> nat \<Rightarrow> string" where
  "partial_write_warning dest bytes_written n =
     newline # ''Warning: Partial write to '' @ dest @ '': '' @ format_d bytes_written
     @ ''/'' @ format_d (int n) @ '' bytes''"

text \<open>Read from RTT and write to the PTY.\<close>

definition up_direction ::
  "'e ops \<Rightarrow> int \<Rightarrow> int \<Rightarrow> loop_state \<Rightarrow> 'e world \<Rightarrow> up_flow \<times> loop_state \<times> 'e world" where
  "up_direction jl index_up master_fd st w =
     (case call (RttRead index_up 4096) (rtt_read jl index_up 4096) w of
        (Inl e, w1) \<Rightarrow> up_handlers e st w1
      | (Inr data, w1) \<Rightarrow>
          if data \<noteq> [] then
            (case os_call (os_write jl master_fd data) w1 of
               (Inr bytes_written, w2) \<Rightarrow>
                 (UpDone, st\<lparr>consecutive_errors := 0\<rparr>,
                  if bytes_written \<noteq> int (length data)
                  then print_err (partial_write_warning ''PTY'' bytes_written (length data)) w2
                  else w2)
             | (Inl oe, w2) \<Rightarrow>
                 if fst oe = EBADF then
                   (UpBreak, st, print_err (newline # ''Error: PTY file descriptor invalid'') w2)
                 else up_handlers (os_error_exc oe) st w2)
          else (UpDone, st, w1))"

text \<open>\<open>except select.error as e\<close> (an alias of \<open>OSError\<close>) around the down direction.\<close>

definition select_handler :: "exc \<Rightarrow> 'e world \<Rightarrow> flow \<times> 'e world" where
  "select_handler e w =
     (case e of
        OSError n m \<Rightarrow>
          if n = EBADF then
            (Break, print_err (newline # ''Error: Invalid file descriptor in select'') w)
          else (Raise e, w)
      | _ \<Rightarrow> (Raise e, w))"

text \<open>\<open>except OSError as e\<close> around the read from the PTY and the write to RTT; what it
  re-raises reaches \<open>select_handler\<close>.\<close>

definition read_handler :: "exc \<Rightarrow> 'e world \<Rightarrow> flow \<times> 'e world" where
  "read_handler e w =
     (case e of
        OSError n m \<Rightarrow>
          if n = EBADF then
            (Break, print_err (newline # ''Error: PTY file descriptor invalid'') w)
          else if n = EIO then (Break, print_err (newline # ''PTY closed by slave'') w)
          else select_handler e w
      | _ \<Rightarrow> select_handler e w)"

text \<open>Read from the PTY and write to RTT.\<close>

definition down_direction :: "'e ops \<Rightarrow> int \<Rightarrow> int \<Rightarrow> 'e world \<Rightarrow> flow \<times> 'e world" where
  "down_direction jl index_down master_fd w =
     (case os_call (select_readable jl master_fd) w of
        (Inl oe, w1) \<Rightarrow> select_handler (os_error_exc oe) w1
      | (Inr False, w1) \<Rightarrow> (Continue, w1)
      | (Inr True, w1) \<Rightarrow>
          (case os_call (os_read jl master_fd 4096) w1 of
             (Inl oe, w2) \<Rightarrow> read_handler (os_error_exc oe) w2
           | (Inr data, w2) \<Rightarrow>
               if data \<noteq> [] then
                 (case call (RttWrite index_down data) (rtt_write jl index_down data) w2 of
                    (Inr bytes_written, w3) \<Rightarrow>
                      (Continue,
                       if bytes_written \<noteq> int (length data)
                       then print_err (partial_write_warning ''RTT'' bytes_written (length data)) w3
                       else w3)
                  | (Inl e, w3) \<Rightarrow>
                      (case e of
                         JLinkRTTException m \<Rightarrow>
                           (Continue,
                            print_err (newline # ''Warning: Failed to write to RTT buffer: ''
                                       @ str_exc e) w3)
                       | _ \<Rightarrow> read_handler e w3))
               else (Continue, w2)))"

text \<open>One pass through the body of \<open>while not do_exit\<close>.\<close>

definition relay_iteration ::
  "'e ops \<Rightarrow> bool \<Rightarrow> int \<Rightarrow> int \<Rightarrow> int \<Rightarrow> loop_state \<Rightarrow> 'e world
     \<Rightarrow> flow \<times> loop_state \<times> 'e world" where
  "relay_iteration jl bidir_flag index_up index_down master_fd st w =
     (case connection_check jl w of
        (False, w1) \<Rightarrow> (Break, st, w1)
      | (True, w1) \<Rightarrow>
          (case up_direction jl index_up master_fd st w1 of
             (UpBreak, st1, w2) \<Rightarrow> (Break, st1, w2)
           | (UpContinue, st1, w2) \<Rightarrow> (Continue, st1, w2)
           | (UpRaise e, st1, w2) \<Rightarrow> (Raise e, st1, w2)
           | (UpDone, st1, w2) \<Rightarrow>
               if bidir_flag \<and> index_down \<ge> 0 then
                 (case down_direction jl index_down master_fd w2 of
                    (f, w3) \<Rightarrow> (f, st1, w3))
               else (Continue, st1, sleep_ms 100 w2)))"

text \<open>Signals arrive from the environment. The handler runs between two operations of
  the main thread and the loop reads \<open>do_exit\<close> only at its head, so a signal is
  delivered here just before that test.\<close>

definition deliver_signal :: "'e ops \<Rightarrow> loop_state \<Rightarrow> 'e world \<Rightarrow> loop_state \<times> 'e world" where
  "deliver_signal jl st w =
     (case poll_signal jl (env w) of
        (None, e') \<Rightarrow> (st, w\<lparr>env := e'\<rparr>)
      | (Some signum, e') \<Rightarrow> signal_handler signum st (w\<lparr>env := e'\<rparr>))"

text \<open>\<open>while not do_exit\<close>: the loop may run forever, so it is a partial function.
  \<open>Some (None, ...)\<close> is the loop left by its condition or by \<open>break\<close>,
  \<open>Some (Some e, ...)\<close> an exception leaving it.\<close>

partial_function (option) relay_loop ::
  "'e ops \<Rightarrow> bool \<Rightarrow> int \<Rightarrow> int \<Rightarrow> int \<Rightarrow> loop_state \<Rightarrow> 'e world
     \<Rightarrow> (exc option \<times> loop_state \<times> 'e world) option" where
  "relay_loop jl bidir_flag index_up index_down master_fd st w =
     (case deliver_signal jl st w of
        (st0, w0) \<Rightarrow>
          if do_exit st0 then Some (None, st0, w0)
          else (case relay_iteration jl bidir_flag index_up index_down master_fd st0 w0 of
                  (Continue, st1, w1) \<Rightarrow>
                    relay_loop jl bidir_flag index_up index_down master_fd st1 w1
                | (Break, st1, w1) \<Rightarrow> Some (None, st1, w1)
                | (Raise e, st1, w1) \<Rightarrow> Some (Some e, st1, w1)))"

declare relay_loop.simps [code]

section \<open>Teardown\<close>

text \<open>\<open>except OSError: pass\<close>\<close>

definition pass_OSError :: "exc \<Rightarrow> exc option" where
  "pass_OSError e = (case e of OSError n m \<Rightarrow> None | _ \<Rightarrow> Some e)"

text \<open>\<open>if fd is not None: try: os.close(fd) except OSError: pass\<close>\<close>

definition close_quietly ::
  "'e ops \<Rightarrow> int option \<Rightarrow> 'e world \<Rightarrow> exc option \<times> 'e world" where
  "close_quietly jl fd_opt w =
     (case fd_opt of
        None \<Rightarrow> (None, w)
      | Some fd \<Rightarrow>
          (case os_close jl fd w of
             (Inl oe, w1) \<Rightarrow> (pass_OSError (os_error_exc oe), w1)
           | (Inr u, w1) \<Rightarrow> (None, w1)))"

text \<open>\<open>if symlink_path and os.path.exists(symlink_path): ...\<close>\<close>

definition remove_symlink :: "string option \<Rightarrow> 'e world \<Rightarrow> exc option \<times> 'e world" where
  "remove_symlink symlink_path w =
     (case symlink_path of
        None \<Rightarrow> (None, w)
      | Some p \<Rightarrow>
          if p \<noteq> [] \<and> path_exists w p then
            (if path_islink w p then
               (case os_remove p w of
                  (Inl oe, w1) \<Rightarrow>
                    (case os_error_exc oe of
                       OSError n m \<Rightarrow>
                         (None, print_err (''Warning: Failed to remove symlink: ''
                                           @ str_exc (os_error_exc oe)) w1)
                     | e \<Rightarrow> (Some e, w1))
                | (Inr u, w1) \<Rightarrow> (None, w1))
             else (None, w))
          else (None, w))"

text \<open>The \<open>finally\<close> block of \<open>main\<close>, in its order: stop RTT, close the master, close
  the slave, remove the symlink, close the J-Link. \<open>jlink\<close> is set whenever the block
  runs. The first component is the exception that leaves the block, if any.\<close>

definition teardown ::
  "'e ops \<Rightarrow> int option \<Rightarrow> int option \<Rightarrow> string option \<Rightarrow> 'e world \<Rightarrow> exc option \<times> 'e world" where
  "teardown jl master_fd slave_fd symlink_path w =
     (let w0 = print_err ''Cleaning up...'' w;
          w1 = (case call RttStop (rtt_stop jl) w0 of
                  (Inl e, w') \<Rightarrow> print_err (''Warning: Failed to stop RTT: '' @ str_exc e) w'
                | (Inr u, w') \<Rightarrow> w')
      in case close_quietly jl master_fd w1 of
           (Some e, w2) \<Rightarrow> (Some e, w2)
         | (None, w2) \<Rightarrow>
        (case close_quietly jl slave_fd w2 of
           (Some e, w3) \<Rightarrow> (Some e, w3)
         | (None, w3) \<Rightarrow>
        (case remove_symlink symlink_path w3 of
           (Some e, w4) \<Rightarrow> (Some e, w4)
         | (None, w4) \<Rightarrow>
        (case call Close (jl_close jl) w4 of
           (Inl e, w5) \<Rightarrow>
             (None, print_err (''Warning: Failed to close J-Link: '' @ str_exc e) w5)
         | (Inr u, w5) \<Rightarrow> (None, w5)))))"

section \<open>The main program\<close>

text \<open>The parsed command line.\<close>

record args =
  device :: string
  serial :: "int option"
  speed :: int
  buffer :: string
  bidir :: bool
  address :: "string option"
  link :: "string option"
  print_bufs :: bool

text \<open>\<open>if args.address:\<close> and \<open>if args.link:\<close>: an absent option and the empty string
  are both false.\<close>

definition given :: "string option \<Rightarrow> string option" where
  "given s = (case s of None \<Rightarrow> None | Some v \<Rightarrow> if v = [] then None else Some v)"

text \<open>\<open>traceback.print_exc()\<close> writes the traceback of the exception to standard error;
  only its first line and the message are kept.\<close>

definition traceback_text :: "exc \<Rightarrow> string" where
  "traceback_text e = ''Traceback (most recent call last): '' @ str_exc e"

text \<open>A stage of \<open>main\<close> inside its outer \<open>try\<close> ends with \<open>Inr code\<close> for
  \<open>return code\<close> or \<open>Inl e\<close> for an exception that reaches the outer handlers.\<close>

definition close_and_return :: "'e ops \<Rightarrow> int \<Rightarrow> 'e world \<Rightarrow> (exc + int) \<times> 'e world" where
  "close_and_return jl code w =
     (case call Close (jl_close jl) w of
        (Inl e, w1) \<Rightarrow> (Inl e, w1)
      | (Inr u, w1) \<Rightarrow> (Inr code, w1))"

text \<open>The loop of \<open>main\<close> with what follows it: the handler for an exception leaving the
  loop, the \<open>finally\<close> block, \<open>return 0\<close>.\<close>

definition main_run ::
  "'e ops \<Rightarrow> args \<Rightarrow> int \<Rightarrow> int \<Rightarrow> int \<Rightarrow> int \<Rightarrow> string option \<Rightarrow> 'e world
     \<Rightarrow> ((exc + int) \<times> 'e world) option" where
  "main_run jl a index_up index_down master_fd slave_fd symlink_path w =
     (let w0 = print_out ''RTT bridge active. Press Ctrl+C to exit.'' w in
      case relay_loop jl (bidir a) index_up index_down master_fd
             \<lparr>do_exit = False, consecutive_errors = 0\<rparr> w0 of
        None \<Rightarrow> None
      | Some (r, st, w1) \<Rightarrow>
          (let w2 = (case r of
                       None \<Rightarrow> w1
                     | Some e \<Rightarrow>
                         print_err (traceback_text e)
                           (print_err (newline # ''Unexpected error in main loop: ''
                                       @ str_exc e) w1))
           in case teardown jl (Some master_fd) (Some slave_fd) symlink_path w2 of
                (Some e, w3) \<Rightarrow> Some (Inl e, w3)
              | (None, w3) \<Rightarrow> Some (Inr 0, w3)))"

text \<open>Create the PTY and, if asked, the symlink.\<close>

definition stage_pty ::
  "'e ops \<Rightarrow> args \<Rightarrow> int \<Rightarrow> int \<Rightarrow> 'e world \<Rightarrow> ((exc + int) \<times> 'e world) option" where
  "stage_pty jl a index_up index_down w =
     (case create_pty jl w of
        (Inl e, w1) \<Rightarrow>
          (case e of
             RTTBridgeError m \<Rightarrow> Some (close_and_return jl 1 (print_err (''Error: '' @ m) w1))
           | _ \<Rightarrow> Some (Inl e, w1))
      | (Inr (master_fd, slave_fd, pty_name), w1) \<Rightarrow>
          (let w2 = print_out (''PTY name is '' @ pty_name) w1 in
           case given (link a) of
             None \<Rightarrow> main_run jl a index_up index_down master_fd slave_fd None w2
           | Some p \<Rightarrow>
               (case create_symlink pty_name p w2 of
                  (None, w3) \<Rightarrow>
                    main_run jl a index_up index_down master_fd slave_fd (Some p)
                      (print_out (''Created symlink '' @ p @ '' -> '' @ pty_name) w3)
                | (Some e, w3) \<Rightarrow>
                    (case e of
                       RTTBridgeError m \<Rightarrow>
                         main_run jl a index_up index_down master_fd slave_fd None
                           (print_err ''Continuing without symlink...''
                              (print_err (''Warning: '' @ m) w3))
                     | _ \<Rightarrow> Some (Inl e, w3)))))"

text \<open>What \<open>main\<close> does when a buffer is not available: the heading goes to standard
  error, then \<open>print_buffers\<close> runs, then the J-Link is closed and \<open>main\<close> returns 1.\<close>

definition report_buffers_and_exit :: "'e ops \<Rightarrow> 'e world \<Rightarrow> (exc + int) \<times> 'e world" where
  "report_buffers_and_exit jl w =
     (case print_buffers jl (print_err (newline # ''Available buffers:'') w) of
        (ok, w1) \<Rightarrow> close_and_return jl 1 w1)"

definition none_has_no_size :: exc where
  "none_has_no_size =
     AttributeError (squote @ ''NoneType'' @ squote @ '' object has no attribute ''
                     @ squote @ ''SizeOfBuffer'' @ squote)"

definition using_line :: "string \<Rightarrow> int \<Rightarrow> string \<Rightarrow> desc \<Rightarrow> string" where
  "using_line dir i nm d =
     ''Using '' @ dir @ ''-buffer #'' @ format_d i @ '' '' @ squote @ nm @ squote
     @ '' (size='' @ format_d (SizeOfBuffer d) @ '')''"

definition not_found_line :: "string \<Rightarrow> string \<Rightarrow> string" where
  "not_found_line dir nm =
     ''Error: Failed to find matching '' @ dir @ ''-buffer '' @ squote @ nm @ squote"

text \<open>\<open>if args.bidir:\<close> find the down-buffer.\<close>

definition stage_down ::
  "'e ops \<Rightarrow> args \<Rightarrow> int \<Rightarrow> 'e world \<Rightarrow> ((exc + int) \<times> 'e world) option" where
  "stage_down jl a index_up w =
     (if bidir a then
        (case find_buffer_by_name jl (buffer a) False 3 w of
           (Inl e, w1) \<Rightarrow>
             (case e of
                RTTBridgeError m \<Rightarrow>
                  Some (report_buffers_and_exit jl (print_err (''Error: '' @ m) w1))
              | _ \<Rightarrow> Some (Inl e, w1))
         | (Inr (index_down, desc_down), w1) \<Rightarrow>
             if index_down < 0 then
               Some (report_buffers_and_exit jl
                       (print_err (not_found_line ''down'' (buffer a)) w1))
             else
               (case desc_down of
                  None \<Rightarrow> Some (Inl none_has_no_size, w1)
                | Some d \<Rightarrow>
                    stage_pty jl a index_up index_down
                      (print_out (using_line ''down'' index_down (buffer a) d) w1)))
      else stage_pty jl a index_up (- 1) w)"

text \<open>Find the up-buffer.\<close>

definition stage_up :: "'e ops \<Rightarrow> args \<Rightarrow> 'e world \<Rightarrow> ((exc + int) \<times> 'e world) option" where
  "stage_up jl a w =
     (case find_buffer_by_name jl (buffer a) True 3 w of
        (Inl e, w1) \<Rightarrow>
          (case e of
             RTTBridgeError m \<Rightarrow>
               Some (report_buffers_and_exit jl (print_err (''Error: '' @ m) w1))
           | _ \<Rightarrow> Some (Inl e, w1))
      | (Inr (index_up, desc_up), w1) \<Rightarrow>
          if index_up < 0 then
            Some (report_buffers_and_exit jl (print_err (not_found_line ''up'' (buffer a)) w1))
          else
            (case desc_up of
               None \<Rightarrow> Some (Inl none_has_no_size, w1)
             | Some d \<Rightarrow>
                 stage_down jl a index_up
                   (print_out (using_line ''up'' index_up (buffer a) d) w1)))"

text \<open>\<open>if args.print_bufs:\<close> list the buffers and leave.\<close>

definition stage_listing :: "'e ops \<Rightarrow> args \<Rightarrow> 'e world \<Rightarrow> ((exc + int) \<times> 'e world) option" where
  "stage_listing jl a w =
     (if print_bufs a then
        (case print_buffers jl w of
           (success, w1) \<Rightarrow> Some (close_and_return jl (if success then 0 else 1) w1))
      else stage_up jl a w)"

text \<open>\<open>while not is_rtt_active(jlink)\<close> with its timeout of 5 seconds and its sleep of
  200 ms. The clock of the model advances by the sleeps only. \<open>True\<close>: RTT became active;
  \<open>False\<close>: the timeout was reached.\<close>

function wait_for_rtt :: "'e ops \<Rightarrow> nat \<Rightarrow> 'e world \<Rightarrow> bool \<times> 'e world" where
  "wait_for_rtt jl rtt_wait_start w =
     (let r = is_rtt_active jl w in
      if fst r then (True, snd r)
      else if clock (snd r) - rtt_wait_start > 5000 then (False, snd r)
      else wait_for_rtt jl rtt_wait_start (sleep_ms 200 (snd r)))"
  by pat_completeness auto
termination
  apply (relation "measure (\<lambda>(jl, rtt_wait_start, w). rtt_wait_start + 5201 - clock w)")
   apply simp
  apply (auto simp: is_rtt_active_def call_def sleep_ms_def split: if_splits prod.splits sum.splits)
  done

declare wait_for_rtt.simps [simp del]

definition stage_wait :: "'e ops \<Rightarrow> args \<Rightarrow> 'e world \<Rightarrow> ((exc + int) \<times> 'e world) option" where
  "stage_wait jl a w =
     (let w1 = sleep_ms 500 (print_out ''Searching for RTT control block...'' w) in
      case wait_for_rtt jl (clock w1) w1 of
        (True, w2) \<Rightarrow> stage_listing jl a w2
      | (False, w2) \<Rightarrow>
          (let w3 = print_err ''Hint: Ensure firmware has RTT enabled and device is running''
                      (print_err ''Error: RTT control block not found after timeout'' w2);
               w4 = snd (call RttStop (rtt_stop jl) w3)
           in Some (close_and_return jl 1 w4)))"

text \<open>Configure and start RTT.\<close>

definition start_rtt_failed :: "'e ops \<Rightarrow> exc \<Rightarrow> 'e world \<Rightarrow> (exc + int) \<times> 'e world" where
  "start_rtt_failed jl e w =
     (if is_JLinkException e \<or> (case e of ValueError m \<Rightarrow> True | _ \<Rightarrow> False) then
        close_and_return jl 1 (print_err (''Error: Failed to start RTT: '' @ str_exc e) w)
      else (Inl e, w))"

definition start_rtt ::
  "'e ops \<Rightarrow> args \<Rightarrow> rtt_start_arg \<Rightarrow> 'e world \<Rightarrow> ((exc + int) \<times> 'e world) option" where
  "start_rtt jl a arg w =
     (case call (RttStart arg) (rtt_start jl arg) w of
        (Inl e, w1) \<Rightarrow> Some (start_rtt_failed jl e w1)
      | (Inr u, w1) \<Rightarrow> stage_wait jl a w1)"

definition stage_rtt :: "'e ops \<Rightarrow> args \<Rightarrow> 'e world \<Rightarrow> ((exc + int) \<times> 'e world) option" where
  "stage_rtt jl a w =
     (let w1 = print_out ''Configuring RTT...'' w in
      case given (address a) of
        Some s \<Rightarrow>
          (case parse_address s of
             Inl e \<Rightarrow> Some (start_rtt_failed jl e w1)
           | Inr (start, Some size_v) \<Rightarrow>
               start_rtt jl a (SearchRanges [(start, size_v)])
                 (print_out (''Using RTT search range: 0x'' @ format_X start @ '', 0x''
                             @ format_X size_v) w1)
           | Inr (addr, None) \<Rightarrow>
               start_rtt jl a (BlockAddress addr)
                 (print_out (''Using RTT address: 0x'' @ format_X addr) w1))
      | None \<Rightarrow>
          start_rtt jl a AutoDetect
            (print_out ''Using auto-detection for RTT control block...'' w1))"

definition print_device_info :: "'e ops \<Rightarrow> 'e world \<Rightarrow> 'e world" where
  "print_device_info jl w =
     (let unavailable = (\<lambda>e. ''  (device info unavailable: '' @ str_exc e @ '')'') in
      case call ProductName (product_name jl) w of
        (Inl e, w1) \<Rightarrow> print_out (unavailable e) w1
      | (Inr pn, w1) \<Rightarrow>
          (case call SerialNumber (serial_number jl) (print_out (''  '' @ pn) w1) of
             (Inl e, w2) \<Rightarrow> print_out (unavailable e) w2
           | (Inr sn, w2) \<Rightarrow> print_out (''  S/N: '' @ format_d sn) w2))"

text \<open>Verify the connection after the device connect.\<close>

definition stage_verify :: "'e ops \<Rightarrow> args \<Rightarrow> 'e world \<Rightarrow> ((exc + int) \<times> 'e world) option" where
  "stage_verify jl a w =
     (case verify_jlink_connection jl w of
        (Some e, w1) \<Rightarrow>
          (case e of
             RTTBridgeError m \<Rightarrow>
               Some (close_and_return jl 1
                       (print_err (''Error: Connection verification failed: '' @ m) w1))
           | _ \<Rightarrow> Some (Inl e, w1))
      | (None, w1) \<Rightarrow> stage_rtt jl a (print_device_info jl (print_out ''Connected to:'' w1)))"

definition connect_failed :: "'e ops \<Rightarrow> args \<Rightarrow> exc \<Rightarrow> 'e world \<Rightarrow> (exc + int) \<times> 'e world" where
  "connect_failed jl a e w =
     (if is_JLinkException e then
        close_and_return jl 1
          (print_err (''Error: Failed to connect to device '' @ squote @ device a @ squote
                      @ '': '' @ str_exc e) w)
      else (Inl e, w))"

text \<open>Select SWD, set the speed, connect to the device.\<close>

definition stage_device :: "'e ops \<Rightarrow> args \<Rightarrow> 'e world \<Rightarrow> ((exc + int) \<times> 'e world) option" where
  "stage_device jl a w =
     (let w1 = print_out (''Connecting to '' @ device a @ ''...'') w in
      case call SetTif (set_tif jl) w1 of
        (Inl e, w2) \<Rightarrow> Some (connect_failed jl a e w2)
      | (Inr u, w2) \<Rightarrow>
     (case call (SetSpeed (speed a)) (set_speed jl (speed a)) w2 of
        (Inl e, w3) \<Rightarrow> Some (connect_failed jl a e w3)
      | (Inr u, w3) \<Rightarrow>
     (case call (Connect (device a)) (connect jl (device a)) w3 of
        (Inl e, w4) \<Rightarrow> Some (connect_failed jl a e w4)
      | (Inr u, w4) \<Rightarrow> stage_verify jl a w4)))"

text \<open>Open the J-Link (\<open>if args.serial:\<close> is false for no serial number and for 0).\<close>

definition stage_open :: "'e ops \<Rightarrow> args \<Rightarrow> 'e world \<Rightarrow> ((exc + int) \<times> 'e world) option" where
  "stage_open jl a w =
     (let w1 = print_out ''Connecting to J-Link...'' w;
          sn = (case serial a of None \<Rightarrow> None | Some n \<Rightarrow> if n = 0 then None else Some n)
      in case call (Open sn) (jl_open jl sn) w1 of
           (Inl e, w2) \<Rightarrow>
             if is_JLinkException e then
               (let w3 = print_err (''Error: Failed to open J-Link: '' @ str_exc e) w2 in
                Some (Inr 1,
                  if sublist ''No J-Link found'' (str_exc e) \<or> sublist ''No connection'' (str_exc e)
                  then print_err
                         ''Hint: Ensure J-Link is connected and drivers are installed'' w3
                  else w3))
             else Some (Inl e, w2)
         | (Inr u, w2) \<Rightarrow>
             (case call Opened (opened jl) w2 of
                (Inl e, w3) \<Rightarrow>
                  (case e of
                     RTTBridgeError m \<Rightarrow>
                       Some (close_and_return jl 1 (print_err (''Error: '' @ m) w3))
                   | _ \<Rightarrow> Some (Inl e, w3))
              | (Inr False, w3) \<Rightarrow>
                  Some (close_and_return jl 1 (print_err ''Error: J-Link DLL is not open'' w3))
              | (Inr True, w3) \<Rightarrow> stage_device jl a w3))"

text \<open>The body of the outer \<open>try\<close> of \<open>main\<close>.\<close>

definition main_session :: "'e ops \<Rightarrow> args \<Rightarrow> 'e world \<Rightarrow> ((exc + int) \<times> 'e world) option" where
  "main_session jl a w =
     (case call NewJLink (new_JLink jl) w of
        (Inl e, w1) \<Rightarrow>
          Some (Inr 1, print_err (''Error: Failed to create J-Link instance: '' @ str_exc e) w1)
      | (Inr u, w1) \<Rightarrow> stage_open jl a w1)"

text \<open>The handlers of the outer \<open>try\<close>.\<close>

definition main_handlers :: "exc \<Rightarrow> 'e world \<Rightarrow> int \<times> 'e world" where
  "main_handlers e w =
     (case e of
        RTTBridgeError m \<Rightarrow> (1, print_err (''Error: '' @ m) w)
      | _ \<Rightarrow>
          if is_JLinkException e then (1, print_err (''J-Link error: '' @ str_exc e) w)
          else (1, print_err (traceback_text e)
                     (print_err (''Unexpected error: '' @ str_exc e) w)))"

text \<open>\<open>main\<close>: the exit code and the final world, \<open>None\<close> when the relay loop never
  ends. \<open>Inl e\<close> is an exception that no handler of \<open>main\<close> catches.\<close>

definition main :: "'e ops \<Rightarrow> args \<Rightarrow> 'e world \<Rightarrow> ((exc + int) \<times> 'e world) option" where
  "main jl a w =
     (case validate_speed (speed a) of
        Inl (ValueError m) \<Rightarrow> Some (Inr 1, print_err (''Error: '' @ m) w)
      | Inl e \<Rightarrow> Some (Inl e, w)
      | Inr v \<Rightarrow>
     (case (case given (address a) of None \<Rightarrow> None
            | Some s \<Rightarrow> (case parse_address s of Inl e \<Rightarrow> Some e | Inr info \<Rightarrow> None)) of
        Some (ValueError m) \<Rightarrow>
          Some (Inr 1, print_err (''Error: Invalid address format: '' @ m) w)
      | Some e \<Rightarrow> Some (Inl e, w)
      | None \<Rightarrow>
          if buffer a = [] \<or> strip (buffer a) = [] then
            Some (Inr 1, print_err ''Error: Buffer name cannot be empty'' w)
          else
            (case main_session jl a w of
               None \<Rightarrow> None
             | Some (Inl e, w1) \<Rightarrow>
                 (case main_handlers e w1 of (code, w2) \<Rightarrow> Some (Inr code, w2))
             | Some (Inr code, w1) \<Rightarrow> Some (Inr code, w1))))"

section \<open>Concrete sessions\<close>

text \<open>A small session on which the definitions can be run: every SDK call succeeds, RTT is
  active through the SDK's own \<open>rtt_is_active\<close>, there is one up-buffer \<open>Terminal\<close> of
  1024 bytes and no down-buffer, the target sends nothing and nobody types. The host is
  a Linux system: \<open>pty.openpty\<close> gives the descriptors 3 and 4 of \<open>/dev/pts/0\<close>, whose
  node goes away when the master 3 is closed.\<close>

definition terminal_desc :: desc where
  "terminal_desc = \<lparr>desc_name = Inr (Str ''Terminal''), SizeOfBuffer = 1024\<rparr>"

definition quiet_probe :: "unit ops" where
  "quiet_probe =
     \<lparr>new_JLink = (\<lambda>e. (Inr (), e)),
      jl_open = (\<lambda>sn e. (Inr (), e)),
      opened = (\<lambda>e. (Inr True, e)),
      connected = (\<lambda>e. (Inr True, e)),
      target_connected = (\<lambda>e. (Inr True, e)),
      product_name = (\<lambda>e. (Inr ''J-Link'', e)),
      serial_number = (\<lambda>e. (Inr 123456, e)),
      set_tif = (\<lambda>e. (Inr (), e)),
      set_speed = (\<lambda>s e. (Inr (), e)),
      connect = (\<lambda>d e. (Inr (), e)),
      rtt_start = (\<lambda>a e. (Inr (), e)),
      rtt_stop = (\<lambda>e. (Inr (), e)),
      jl_close = (\<lambda>e. (Inr (), e)),
      has_rtt_is_active = True,
      rtt_is_active = (\<lambda>e. (Inr True, e)),
      rtt_get_num_up_buffers = (\<lambda>e. (Inr 1, e)),
      rtt_get_num_down_buffers = (\<lambda>e. (Inr 0, e)),
      rtt_get_buf_descriptor = (\<lambda>i up e.
        (if up \<and> i = 0 then Inr (Some terminal_desc)
         else Inl (JLinkRTTException ''no such buffer''), e)),
      rtt_read = (\<lambda>i n e. (Inr [], e)),
      rtt_write = (\<lambda>i d e. (Inr (int (length d)), e)),
      decode_utf8_replace = (\<lambda>b. b),
      openpty = (\<lambda>e. (Inr (3, 4), e)),
      ttyname = (\<lambda>fd e. (Inr ''/dev/pts/0'', e)),
      os_write = (\<lambda>fd d e. (Inr (int (length d)), e)),
      os_read = (\<lambda>fd n e. (Inr [], e)),
      select_readable = (\<lambda>fd e. (Inr False, e)),
      poll_signal = (\<lambda>e. (None, e)),
      pts_node = (\<lambda>fd. if fd = 3 then Some ''/dev/pts/0'' else None)\<rparr>"

definition empty_world :: "unit world" where
  "empty_world =
     \<lparr>env = (), calls = [], stdout = [], stderr = [], clock = 0, open_fds = {},
      fs = (\<lambda>p. None)\<rparr>"

text \<open>The same session with no up-buffer, on an SDK object without \<open>rtt_is_active\<close>.\<close>

definition no_up_buffers_probe :: "unit ops" where
  "no_up_buffers_probe =
     quiet_probe\<lparr>has_rtt_is_active := False, rtt_get_num_up_buffers := (\<lambda>e. (Inr 0, e))\<rparr>"



text \<open>The probe's DLL reports that it is not open and the identity query fails, while
  both connection flags are still true.\<close>

definition unopened_probe :: "unit ops" where
  "unopened_probe =
     quiet_probe\<lparr>opened := (\<lambda>e. (Inr False, e)),
                 product_name := (\<lambda>e. (Inl (JLinkException ''J-Link DLL is not open.''), e))\<rparr>"

text \<open>The connection to the target is lost.\<close>

definition disconnected_probe :: "unit ops" where
  "disconnected_probe = quiet_probe\<lparr>target_connected := (\<lambda>e. (Inr False, e))\<rparr>"

text \<open>The operator has typed \<open>ping\<close>; the write to the down-buffer fails, with the
  exception pylink raises when the connection is gone, or with an RTT error.\<close>

definition typing_probe :: "exc \<Rightarrow> unit ops" where
  "typing_probe e =
     quiet_probe\<lparr>select_readable := (\<lambda>fd env. (Inr True, env)),
                 os_read := (\<lambda>fd n env. (Inr [112, 105, 110, 103], env)),
                 rtt_write := (\<lambda>i d env. (Inl e, env))\<rparr>"

definition initial_loop_state :: loop_state where
  "initial_loop_state = \<lparr>do_exit = False, consecutive_errors = 0\<rparr>"

definition default_args :: args where
  "default_args =
     \<lparr>device = ''NRF54L15_M33'', serial = None, speed = 4000, buffer = ''Terminal'',
      bidir = False, address = None, link = None, print_bufs = False\<rparr>"

section \<open>Properties of the address parser\<close>

lemma length_split_on: "length (split_on sep s) = Suc (count_list s sep)"
  by (induction s) (auto split: list.splits)

lemma count_list_dropWhile: "\<not> P x \<Longrightarrow> count_list (dropWhile P xs) x = count_list xs x"
  by (induction xs) auto

lemma comma_not_space: "\<not> py_isspace CHR '',''"
  by (simp add: py_isspace_def)

lemma count_comma_strip: "count_list (strip s) CHR '','' = count_list s CHR '',''"
  by (simp add: strip_def lstrip_def rstrip_def count_list_dropWhile comma_not_space)

lemma count_list_pos_mem: "0 < count_list xs x \<Longrightarrow> x \<in> set xs"
  by (induction xs) (auto split: if_splits)

lemma strip_Nil: "strip [] = []"
  by (simp add: strip_def lstrip_def rstrip_def)

text \<open>
  Claim C5, as the code has it. An input with more than one comma is not parsed as
  a single value: it enters the search-range branch (it contains a comma), is split
  into more than two parts, and \<open>parse_address\<close> raises the search-range error
  \<open>Invalid search range format: '<input>' (expected 'start,size')\<close>.
\<close>

theorem parse_address_many_commas:
  assumes "1 < count_list s CHR '',''"
  shows "parse_address s =
     Inl (ValueError (''Invalid search range format: '' @ squote @ strip s @ squote
                      @ '' (expected '' @ squote @ ''start,size'' @ squote @ '')''))"
proof -
  have c: "1 < count_list (strip s) CHR '',''" using assms by (simp add: count_comma_strip)
  then have m: "CHR '','' \<in> set (strip s)" by (intro count_list_pos_mem) simp
  then have ne: "strip s \<noteq> []" by auto
  then have ne2: "s \<noteq> []" using strip_Nil by auto
  have l: "length (split_on CHR '','' (strip s)) \<noteq> 2" using c by (simp add: length_split_on)
  show ?thesis using m ne ne2 l by (simp add: parse_address_def Let_def)
qed

theorem parse_address_many_commas_witness:
  "1 < count_list ''1,2,3'' CHR '','' \<and>
   parse_address ''1,2,3'' =
     Inl (ValueError (''Invalid search range format: '' @ squote @ strip ''1,2,3'' @ squote
                      @ '' (expected '' @ squote @ ''start,size'' @ squote @ '')''))"
proof -
  have h: "1 < count_list ''1,2,3'' CHR '',''" by simp
  show ?thesis using h parse_address_many_commas [OF h] by simp
qed

text \<open>The claim as written fails at \<open>"1,2,3"\<close>: the error is the search-range one, not
  one of the single-address errors.\<close>

theorem parse_address_many_commas_counterexample:
  "count_list ''1,2,3'' CHR '','' = 2 \<and>
   parse_address ''1,2,3'' =
     Inl (ValueError (''Invalid search range format: '' @ squote @ ''1,2,3'' @ squote
                      @ '' (expected '' @ squote @ ''start,size'' @ squote @ '')'')) \<and>
   \<not> single_address_error (parse_address ''1,2,3'')"
  by (simp add: parse_address_def single_address_error_def strip_def lstrip_def rstrip_def
      py_isspace_def squote_def Let_def)


section \<open>Properties of the buffer lookup\<close>

lemma clock_call: "clock (snd (call c f w)) = clock w"
  by (simp add: call_def split: prod.splits)

lemma clock_is_rtt_active: "clock (snd (is_rtt_active jl w)) = clock w"
  by (simp add: is_rtt_active_def call_def split: prod.splits sum.splits)

lemma clock_rtt_get_num_buffers: "clock (snd (rtt_get_num_buffers jl up w)) = clock w"
  by (simp add: rtt_get_num_buffers_def clock_call)

lemma fst_rtt_get_num_buffers:
  "fst (rtt_get_num_buffers jl up w) =
     fst ((if up then rtt_get_num_up_buffers jl else rtt_get_num_down_buffers jl) (env w))"
  by (simp add: rtt_get_num_buffers_def call_def split: prod.splits)

text \<open>One attempt on a session that is active and has no buffer of the direction: a retry
  after 200 ms, or on the last attempt the wrapped "no buffers" error.\<close>

lemma attempt_zero:
  assumes act: "\<forall>w. fst (is_rtt_active jl w)"
    and zero: "\<forall>e. fst ((if up then rtt_get_num_up_buffers jl
                          else rtt_get_num_down_buffers jl) e) = Inr 0"
  shows "fst (attempt jl nm up mr a w) =
           (if a < mr - 1 then Inr Retry
            else Inl (unexpected_search_error nm
                        (RTTBridgeError (''No '' @ (if up then ''UP'' else ''DOWN'')
                                         @ '' buffers available''))))"
    and "clock (snd (attempt jl nm up mr a w)) = (if a < mr - 1 then clock w + 200 else clock w)"
proof -
  obtain b w1 where r1: "is_rtt_active jl w = (b, w1)" by (cases "is_rtt_active jl w")
  with act have b: "b" by (metis fst_conv)
  have c1: "clock w1 = clock w" using r1 clock_is_rtt_active[of jl w] by simp
  obtain r w2 where r2: "rtt_get_num_buffers jl up w1 = (r, w2)"
    by (cases "rtt_get_num_buffers jl up w1")
  have r: "r = Inr 0" using r2 zero fst_rtt_get_num_buffers[of jl up w1] by simp
  have c2: "clock w2 = clock w" using r2 clock_rtt_get_num_buffers[of jl up w1] c1 by simp
  show "fst (attempt jl nm up mr a w) =
           (if a < mr - 1 then Inr Retry
            else Inl (unexpected_search_error nm
                        (RTTBridgeError (''No '' @ (if up then ''UP'' else ''DOWN'')
                                         @ '' buffers available''))))"
    using r1 b r2 r by (simp add: attempt_def attempt_body_def)
  show "clock (snd (attempt jl nm up mr a w)) = (if a < mr - 1 then clock w + 200 else clock w)"
    using r1 b r2 r c2 by (simp add: attempt_def attempt_body_def sleep_ms_def)
qed

lemma find_attempts_zero:
  assumes act: "\<forall>w. fst (is_rtt_active jl w)"
    and zero: "\<forall>e. fst ((if up then rtt_get_num_up_buffers jl
                          else rtt_get_num_down_buffers jl) e) = Inr 0"
    and k: "k < n" and n: "n = nat mr"
  shows "fst (find_attempts jl nm up mr (map int [k..<n]) w) =
           Inl (unexpected_search_error nm
                  (RTTBridgeError (''No '' @ (if up then ''UP'' else ''DOWN'')
                                   @ '' buffers available'')))
         \<and> clock (snd (find_attempts jl nm up mr (map int [k..<n]) w))
             = clock w + 200 * (n - 1 - k)"
  using k
proof (induction "n - 1 - k" arbitrary: k w)
  case 0
  then have kn: "k = n - 1" by simp
  then have l: "[k..<n] = [k]" using "0.prems" by (simp add: upt_conv_Cons)
  have last: "\<not> int k < mr - 1" using kn n "0.prems" by simp
  obtain r w1 where a: "attempt jl nm up mr (int k) w = (r, w1)"
    by (cases "attempt jl nm up mr (int k) w")
  from attempt_zero[OF act zero, of nm mr "int k" w] a last
  have "r = Inl (unexpected_search_error nm
                  (RTTBridgeError (''No '' @ (if up then ''UP'' else ''DOWN'')
                                   @ '' buffers available'')))"
    and "clock w1 = clock w" by simp_all
  then show ?case using a l kn by simp
next
  case (Suc d)
  then have k1: "Suc k < n" and d: "d = n - 1 - Suc k" by simp_all
  have l: "[k..<n] = k # [Suc k..<n]" using Suc.prems by (simp add: upt_conv_Cons)
  have notlast: "int k < mr - 1" using k1 n by simp
  obtain r w1 where a: "attempt jl nm up mr (int k) w = (r, w1)"
    by (cases "attempt jl nm up mr (int k) w")
  from attempt_zero[OF act zero, of nm mr "int k" w] a notlast
  have r: "r = Inr Retry" and c: "clock w1 = clock w + 200" by simp_all
  from Suc.hyps(1)[OF d k1, of w1]
  have ih: "fst (find_attempts jl nm up mr (map int [Suc k..<n]) w1) =
           Inl (unexpected_search_error nm
                  (RTTBridgeError (''No '' @ (if up then ''UP'' else ''DOWN'')
                                   @ '' buffers available'')))"
    and ihc: "clock (snd (find_attempts jl nm up mr (map int [Suc k..<n]) w1))
             = clock w1 + 200 * (n - 1 - Suc k)" by simp_all
  have step: "find_attempts jl nm up mr (map int [k..<n]) w
              = find_attempts jl nm up mr (map int [Suc k..<n]) w1"
    using a r l by simp
  have "200 * (n - 1 - k) = 200 + 200 * (n - 1 - Suc k)" using k1 by simp
  then show ?case using step ih ihc c by simp
qed

text \<open>
  Claim C1, as the code has it. When the name is not blank, at least one attempt is
  allowed, \<open>is_rtt_active\<close> reports the session active and the count of buffers of the
  requested direction is zero whenever it is queried, \<open>find_buffer_by_name\<close> sleeps 200 ms
  after each attempt but the last and then raises the \<open>RTTBridgeError\<close>
  \<open>Unexpected error while searching for buffer '<name>': No UP|DOWN buffers available\<close>:
  the "no buffers" error of the direction, wrapped by the function's catch-all handler.
  It does not return the not-found result \<open>(-1, None)\<close>.
\<close>

theorem find_buffer_by_name_no_buffers:
  assumes "strip name0 \<noteq> []" and "0 < max_retries"
    and "\<forall>w. fst (is_rtt_active jl w)"
    and "\<forall>e. fst ((if up then rtt_get_num_up_buffers jl
                    else rtt_get_num_down_buffers jl) e) = Inr 0"
  shows "fst (find_buffer_by_name jl name0 up max_retries w) =
           Inl (unexpected_search_error (strip name0)
                  (RTTBridgeError (''No '' @ (if up then ''UP'' else ''DOWN'')
                                   @ '' buffers available'')))
         \<and> fst (find_buffer_by_name jl name0 up max_retries w) \<noteq> Inr (- 1, None)
         \<and> clock (snd (find_buffer_by_name jl name0 up max_retries w))
             = clock w + 200 * (nat max_retries - 1)"
proof -
  have ne: "name0 \<noteq> []" using assms(1) strip_Nil by auto
  have k: "0 < nat max_retries" using assms(2) by simp
  from find_attempts_zero[OF assms(3) assms(4) k refl, of "strip name0" w]
  show ?thesis using ne assms(1) by (simp add: find_buffer_by_name_def py_range_def)
qed

theorem find_buffer_by_name_no_buffers_witness:
  "strip ''Terminal'' \<noteq> [] \<and> (0::int) < 3
   \<and> fst (is_rtt_active quiet_probe empty_world)
   \<and> fst (rtt_get_num_down_buffers quiet_probe ()) = Inr 0
   \<and> fst (find_buffer_by_name quiet_probe ''Terminal'' False 3 empty_world) =
       Inl (RTTBridgeError (''Unexpected error while searching for buffer '' @ squote
                            @ ''Terminal'' @ squote @ '': No DOWN buffers available''))
   \<and> clock (snd (find_buffer_by_name quiet_probe ''Terminal'' False 3 empty_world)) = 400"
proof -
  have s: "strip ''Terminal'' = ''Terminal''"
    by (simp add: strip_def lstrip_def rstrip_def py_isspace_def)
  have h1: "strip ''Terminal'' \<noteq> []" by (simp add: s)
  have h2: "(0::int) < 3" by simp
  have h3: "\<forall>w. fst (is_rtt_active quiet_probe w)"
    by (simp add: is_rtt_active_def quiet_probe_def call_def)
  have h4: "\<forall>e. fst ((if False then rtt_get_num_up_buffers quiet_probe
                       else rtt_get_num_down_buffers quiet_probe) e) = Inr 0"
    by (simp add: quiet_probe_def)
  from find_buffer_by_name_no_buffers[OF h1 h2 h3 h4, of empty_world]
  show ?thesis using h1 h3 h4
    by (simp add: s unexpected_search_error_def empty_world_def)
qed

text \<open>The claim as written fails on a session without the SDK's \<open>rtt_is_active\<close> and
  without up-buffers: the count query returns zero, the fallback of \<open>is_rtt_active\<close>
  takes that for "inactive", and the error is "RTT is not active".\<close>

theorem find_buffer_by_name_no_buffers_counterexample:
  "fst (rtt_get_num_up_buffers no_up_buffers_probe ()) = Inr 0
   \<and> fst (find_buffer_by_name no_up_buffers_probe ''Terminal'' True 3 empty_world) =
       Inl (RTTBridgeError (''Unexpected error while searching for buffer '' @ squote
              @ ''Terminal'' @ squote
              @ '': RTT is not active. Ensure RTT has been started successfully.''))
   \<and> fst (find_buffer_by_name no_up_buffers_probe ''Terminal'' True 3 empty_world) \<noteq>
       Inl (unexpected_search_error ''Terminal'' (RTTBridgeError ''No UP buffers available''))"
  by (simp add: find_buffer_by_name_def py_range_def strip_def lstrip_def rstrip_def
      py_isspace_def attempt_def attempt_body_def is_rtt_active_def call_def sleep_ms_def
      no_up_buffers_probe_def quiet_probe_def empty_world_def unexpected_search_error_def
      squote_def upt_conv_Cons)

text \<open>Every exception that leaves \<open>find_buffer_by_name\<close> is an \<open>RTTBridgeError\<close> made by
  one of the two handlers of the attempt.\<close>

lemma attempt_errors:
  assumes "attempt jl nm up mr a w = (Inl e, w1)"
  shows "(\<exists>d. e = RTTBridgeError (''Failed to query RTT buffers: '' @ d))
         \<or> (\<exists>c. e = unexpected_search_error nm c)"
  using assms
  by (auto simp: attempt_def split: prod.splits sum.splits exc.splits if_splits)

lemma find_attempts_errors:
  assumes "find_attempts jl nm up mr as w = (Inl e, w1)"
  shows "(\<exists>d. e = RTTBridgeError (''Failed to query RTT buffers: '' @ d))
         \<or> (\<exists>c. e = unexpected_search_error nm c)"
  using assms
proof (induction as arbitrary: w)
  case Nil
  then show ?case by simp
next
  case (Cons a as)
  obtain r w2 where a: "attempt jl nm up mr a w = (r, w2)"
    by (cases "attempt jl nm up mr a w")
  show ?case
  proof (cases r)
    case (Inl e')
    with a Cons.prems have "e' = e" by simp
    with a Inl attempt_errors[of jl nm up mr a w e w2] show ?thesis by simp
  next
    case (Inr res)
    show ?thesis
    proof (cases res)
      case Retry
      with a Inr Cons.prems have "find_attempts jl nm up mr as w2 = (Inl e, w1)" by simp
      then show ?thesis by (rule Cons.IH)
    next
      case (Done x)
      with a Inr Cons.prems show ?thesis by simp
    qed
  qed
qed



section \<open>Properties of the signal handler\<close>

text \<open>
  Claim C3, as the code has it. The handler installed for SIGINT, SIGTERM and SIGQUIT
  sets the shutdown flag \<open>do_exit\<close> and prints \<open>\nShutting down...\<close> to standard error;
  it changes nothing else: not the error counter, the probe session, the log of SDK
  calls, standard output, the clock, the descriptors or the file system.
\<close>

theorem signal_handler_effect:
  "do_exit (fst (signal_handler signum st w))
   \<and> consecutive_errors (fst (signal_handler signum st w)) = consecutive_errors st
   \<and> stderr (snd (signal_handler signum st w)) = stderr w @ [newline # ''Shutting down...'']
   \<and> stdout (snd (signal_handler signum st w)) = stdout w
   \<and> env (snd (signal_handler signum st w)) = env w
   \<and> calls (snd (signal_handler signum st w)) = calls w
   \<and> clock (snd (signal_handler signum st w)) = clock w
   \<and> open_fds (snd (signal_handler signum st w)) = open_fds w
   \<and> fs (snd (signal_handler signum st w)) = fs w"
  by (simp add: signal_handler_def print_err_def)

theorem signal_handler_effect_witness:
  "do_exit (fst (signal_handler 15 initial_loop_state empty_world))
   \<and> stderr (snd (signal_handler 15 initial_loop_state empty_world))
       = [newline # ''Shutting down...'']
   \<and> calls (snd (signal_handler 15 initial_loop_state empty_world)) = []"
  using signal_handler_effect [of 15 initial_loop_state empty_world]
  by (simp add: empty_world_def)

text \<open>The claim as written fails: on SIGINT the handler writes to standard error.\<close>

theorem signal_handler_counterexample:
  "stderr empty_world = []
   \<and> stderr (snd (signal_handler 2 initial_loop_state empty_world))
       = [newline # ''Shutting down...'']
   \<and> stderr (snd (signal_handler 2 initial_loop_state empty_world)) \<noteq> stderr empty_world"
  by (simp add: signal_handler_def print_err_def empty_world_def)


section \<open>Properties of the teardown\<close>

lemma call_frame:
  "open_fds (snd (call c f w)) = open_fds w" "fs (snd (call c f w)) = fs w"
  "stderr (snd (call c f w)) = stderr w" "stdout (snd (call c f w)) = stdout w"
  by (simp_all add: call_def split: prod.splits)

lemma print_err_frame:
  "open_fds (print_err s w) = open_fds w" "fs (print_err s w) = fs w"
  "calls (print_err s w) = calls w" "env (print_err s w) = env w"
  "stdout (print_err s w) = stdout w" "clock (print_err s w) = clock w"
  by (simp_all add: print_err_def)

lemma close_quietly_never_raises: "fst (close_quietly jl fd w) = None"
  by (simp add: close_quietly_def os_close_def pass_OSError_def os_error_exc_def
      split: option.splits)

lemma close_quietly_fds:
  "open_fds (snd (close_quietly jl fd w)) = open_fds w - set_option fd"
  by (auto simp: close_quietly_def os_close_def split: option.splits)

text \<open>Closing a descriptor that is not open changes nothing: \<open>os.close\<close> raises
  \<open>OSError\<close>, which is passed over.\<close>

lemma close_quietly_closed:
  "set_option fd \<inter> open_fds w = {} \<Longrightarrow> close_quietly jl fd w = (None, w)"
  by (cases fd) (simp_all add: close_quietly_def os_close_def pass_OSError_def os_error_exc_def)

text \<open>The removal step never raises, and it changes the file system only: the symlink
  goes away when it is one and its target exists.\<close>

lemma remove_symlink_result:
  "remove_symlink p w =
     (None, case p of
              None \<Rightarrow> w
            | Some q \<Rightarrow> if q \<noteq> [] \<and> resolves 41 (fs w) q \<and> (\<exists>t. fs w q = Some (Symlink t))
                        then w\<lparr>fs := (fs w)(q := None)\<rparr> else w)"
  by (auto simp: remove_symlink_def os_remove_def os_error_exc_def print_err_def
      path_exists_def path_islink_def split: option.splits node.splits)

lemma remove_symlink_never_raises: "fst (remove_symlink p w) = None"
  by (simp add: remove_symlink_result)

lemma remove_symlink_fds: "open_fds (snd (remove_symlink p w)) = open_fds w"
  by (cases p) (simp_all add: remove_symlink_result)

lemma resolves_absent: "f q = None \<Longrightarrow> \<not> resolves n f q"
  by (cases n) simp_all

text \<open>On a file system that the removal step has left, the step changes nothing.\<close>

lemma remove_symlink_again:
  assumes "fs w2 = fs (snd (remove_symlink p w))"
  shows "remove_symlink p w2 = (None, w2)"
proof (cases p)
  case None
  then show ?thesis by (simp add: remove_symlink_result)
next
  case (Some q)
  show ?thesis
  proof (cases "q \<noteq> [] \<and> resolves 41 (fs w) q \<and> (\<exists>t. fs w q = Some (Symlink t))")
    case True
    then have "fs w2 = (fs w)(q := None)" using assms Some by (simp add: remove_symlink_result)
    then have "fs w2 q = None" by simp
    then have "\<not> resolves 41 (fs w2) q" by (rule resolves_absent)
    then show ?thesis using Some by (simp add: remove_symlink_result)
  next
    case False
    then have "fs w2 = fs w" using assms Some by (auto simp: remove_symlink_result)
    then show ?thesis using False Some by (auto simp: remove_symlink_result)
  qed
qed

text \<open>The teardown as a chain of its steps: \<open>w1\<close> is the state after \<open>rtt_stop\<close>, \<open>w4\<close>
  the state after the descriptors and the symlink have been dealt with, \<open>w5\<close> the state
  at the end.\<close>

lemma teardown_steps:
  fixes w :: "'e world"
  obtains w1 w4 w5 :: "'e world" where "open_fds w1 = open_fds w" and "fs w1 = fs w"
    and "w4 = snd (remove_symlink p (snd (close_quietly jl s (snd (close_quietly jl m w1)))))"
    and "open_fds w5 = open_fds w4" and "fs w5 = fs w4"
    and "teardown jl m s p w = (None, w5)"
proof -
  obtain r0 v0 where c0: "call RttStop (rtt_stop jl) (print_err ''Cleaning up...'' w) = (r0, v0)"
    by (cases "call RttStop (rtt_stop jl) (print_err ''Cleaning up...'' w)")
  define w1 where "w1 = (case r0 of
                           Inl e \<Rightarrow> print_err (''Warning: Failed to stop RTT: '' @ str_exc e) v0
                         | Inr u \<Rightarrow> v0)"
  have v0: "open_fds v0 = open_fds w" "fs v0 = fs w"
    using call_frame(1,2)[of RttStop "rtt_stop jl" "print_err ''Cleaning up...'' w"] c0
    by (simp_all add: print_err_frame)
  have f1: "open_fds w1 = open_fds w" "fs w1 = fs w"
    using v0 by (cases r0; simp add: w1_def print_err_frame)+
  obtain w2 where c2: "close_quietly jl m w1 = (None, w2)"
    using close_quietly_never_raises[of jl m w1] by (cases "close_quietly jl m w1") simp
  obtain w3 where c3: "close_quietly jl s w2 = (None, w3)"
    using close_quietly_never_raises[of jl s w2] by (cases "close_quietly jl s w2") simp
  obtain w4 where c4: "remove_symlink p w3 = (None, w4)"
    using remove_symlink_never_raises[of p w3] by (cases "remove_symlink p w3") simp
  obtain r5 v5 where c5: "call Close (jl_close jl) w4 = (r5, v5)"
    by (cases "call Close (jl_close jl) w4")
  define w5 where "w5 = (case r5 of
                           Inl e \<Rightarrow> print_err (''Warning: Failed to close J-Link: '' @ str_exc e) v5
                         | Inr u \<Rightarrow> v5)"
  have v5: "open_fds v5 = open_fds w4" "fs v5 = fs w4"
    using call_frame(1,2)[of Close "jl_close jl" w4] c5 by simp_all
  have f5: "open_fds w5 = open_fds w4" "fs w5 = fs w4"
    using v5 by (cases r5; simp add: w5_def print_err_frame)+
  have t: "teardown jl m s p w = (None, w5)"
  proof -
    have "teardown jl m s p w =
            (case close_quietly jl m w1 of
               (Some e, w2) \<Rightarrow> (Some e, w2)
             | (None, w2) \<Rightarrow>
            (case close_quietly jl s w2 of
               (Some e, w3) \<Rightarrow> (Some e, w3)
             | (None, w3) \<Rightarrow>
            (case remove_symlink p w3 of
               (Some e, w4) \<Rightarrow> (Some e, w4)
             | (None, w4) \<Rightarrow>
            (case call Close (jl_close jl) w4 of
               (Inl e, w5) \<Rightarrow>
                 (None, print_err (''Warning: Failed to close J-Link: '' @ str_exc e) w5)
             | (Inr u, w5) \<Rightarrow> (None, w5)))))"
      by (cases r0) (simp_all add: teardown_def Let_def c0 w1_def)
    also have "\<dots> = (None, w5)"
      by (cases r5) (simp_all add: c2 c3 c4 c5 w5_def)
    finally show ?thesis .
  qed
  have "w4 = snd (remove_symlink p (snd (close_quietly jl s (snd (close_quietly jl m w1)))))"
    by (simp add: c2 c3 c4)
  then show ?thesis by (intro that[of w1 w4 w5]) (simp_all add: f1 t f5)
qed

lemma teardown_never_raises: "fst (teardown jl m s p w) = None"
  by (rule teardown_steps[of w p jl s m]) simp

lemma teardown_fds:
  fixes w :: "'e world"
  shows "open_fds (snd (teardown jl m s p w)) = open_fds w - set_option m - set_option s"
proof (rule teardown_steps[of w p jl s m])
  fix w1 w4 w5 :: "'e world"
  assume f: "open_fds w1 = open_fds w" and t: "teardown jl m s p w = (None, w5)"
    and w4: "w4 = snd (remove_symlink p (snd (close_quietly jl s (snd (close_quietly jl m w1)))))"
    and r: "open_fds w5 = open_fds w4"
  have "open_fds w5 = open_fds w1 - set_option m - set_option s"
    using r w4 by (simp add: remove_symlink_fds close_quietly_fds)
  then have "open_fds w5 = open_fds w - set_option m - set_option s"
    by (simp only: f)
  then show ?thesis by (simp add: t)
qed

text \<open>After a teardown its removal step has nothing left to do.\<close>

lemma teardown_symlink_done:
  fixes w :: "'e world"
  assumes "fs w' = fs (snd (teardown jl m s p w))"
  shows "remove_symlink p w' = (None, w')"
proof (rule teardown_steps[of w p jl s m])
  fix w1 w4 w5 :: "'e world"
  assume t: "teardown jl m s p w = (None, w5)"
    and w4: "w4 = snd (remove_symlink p (snd (close_quietly jl s (snd (close_quietly jl m w1)))))"
    and r: "fs w5 = fs w4"
  have "fs w' = fs (snd (remove_symlink p (snd (close_quietly jl s (snd (close_quietly jl m w1))))))"
    using assms t r w4 by simp
  then show ?thesis by (rule remove_symlink_again)
qed

text \<open>A teardown that finds the descriptors closed and nothing to remove does what a
  teardown without descriptors and without a symlink does.\<close>

lemma teardown_closed:
  fixes w :: "'e world"
  assumes m: "set_option m \<inter> open_fds w = {}" and s: "set_option s \<inter> open_fds w = {}"
    and p: "\<And>w' :: 'e world. fs w' = fs w \<Longrightarrow> remove_symlink p w' = (None, w')"
  shows "teardown jl m s p w = teardown jl None None None w"
proof -
  obtain r0 v0 where c0: "call RttStop (rtt_stop jl) (print_err ''Cleaning up...'' w) = (r0, v0)"
    by (cases "call RttStop (rtt_stop jl) (print_err ''Cleaning up...'' w)")
  define w1 where "w1 = (case r0 of
                           Inl e \<Rightarrow> print_err (''Warning: Failed to stop RTT: '' @ str_exc e) v0
                         | Inr u \<Rightarrow> v0)"
  have v0: "open_fds v0 = open_fds w" "fs v0 = fs w"
    using call_frame(1,2)[of RttStop "rtt_stop jl" "print_err ''Cleaning up...'' w"] c0
    by (simp_all add: print_err_frame)
  have f1: "open_fds w1 = open_fds w" "fs w1 = fs w"
    using v0 by (cases r0; simp add: w1_def print_err_frame)+
  have c2: "close_quietly jl m w1 = (None, w1)"
    using m f1 by (simp add: close_quietly_closed)
  have c3: "close_quietly jl s w1 = (None, w1)"
    using s f1 by (simp add: close_quietly_closed)
  have c4: "remove_symlink p w1 = (None, w1)"
    using p f1 by simp
  have n: "close_quietly jl None w1 = (None, w1)" "remove_symlink None w1 = (None, w1)"
    by (simp_all add: close_quietly_def remove_symlink_def)
  have "teardown jl m s p w =
          (case call Close (jl_close jl) w1 of
             (Inl e, w5) \<Rightarrow>
               (None, print_err (''Warning: Failed to close J-Link: '' @ str_exc e) w5)
           | (Inr u, w5) \<Rightarrow> (None, w5))"
    using c2 c3 c4 by (cases r0) (simp_all add: teardown_def Let_def c0 w1_def)
  moreover have "teardown jl None None None w =
          (case call Close (jl_close jl) w1 of
             (Inl e, w5) \<Rightarrow>
               (None, print_err (''Warning: Failed to close J-Link: '' @ str_exc e) w5)
           | (Inr u, w5) \<Rightarrow> (None, w5))"
    using n by (cases r0) (simp_all add: teardown_def Let_def c0 w1_def)
  ultimately show ?thesis by simp
qed

text \<open>What a teardown without descriptors and without a symlink does: the line
  \<open>Cleaning up...\<close>, \<open>rtt_stop\<close>, \<open>close\<close>, and a warning for each of the two that
  raises.\<close>

lemma teardown_probe_only:
  "teardown jl None None None w =
     (None, w\<lparr>env := snd (jl_close jl (snd (rtt_stop jl (env w)))),
              calls := calls w @ [RttStop, Close],
              stderr := stderr w @ [''Cleaning up...'']
                @ (case fst (rtt_stop jl (env w)) of
                     Inl e \<Rightarrow> [''Warning: Failed to stop RTT: '' @ str_exc e]
                   | Inr u \<Rightarrow> [])
                @ (case fst (jl_close jl (snd (rtt_stop jl (env w)))) of
                     Inl e \<Rightarrow> [''Warning: Failed to close J-Link: '' @ str_exc e]
                   | Inr u \<Rightarrow> [])\<rparr>)"
  by (auto simp: teardown_def close_quietly_def remove_symlink_def call_def print_err_def
      split: prod.splits sum.splits)

text \<open>
  Claim C4, as the code has it. The teardown never raises (printing to standard error
  is taken to succeed). When it runs a second time, on the state the first run left,
  it does not raise either: the descriptors are closed already (\<open>os.close\<close> raises
  \<open>OSError\<close>, which is passed over) and the removal step finds nothing to remove, so
  the open descriptors, the file system, standard output and the clock stay as they
  were. The second run is not without effect, though: it prints \<open>Cleaning up...\<close>
  again and calls \<open>rtt_stop\<close> and \<open>close\<close> on the probe again, with a warning on standard
  error for each of the two that raises.
\<close>

theorem teardown_twice:
  assumes "teardown jl m s p w = (r, w1)"
  shows "r = None
     \<and> teardown jl m s p w1 =
         (None, w1\<lparr>env := snd (jl_close jl (snd (rtt_stop jl (env w1)))),
                   calls := calls w1 @ [RttStop, Close],
                   stderr := stderr w1 @ [''Cleaning up...'']
                     @ (case fst (rtt_stop jl (env w1)) of
                          Inl e \<Rightarrow> [''Warning: Failed to stop RTT: '' @ str_exc e]
                        | Inr u \<Rightarrow> [])
                     @ (case fst (jl_close jl (snd (rtt_stop jl (env w1)))) of
                          Inl e \<Rightarrow> [''Warning: Failed to close J-Link: '' @ str_exc e]
                        | Inr u \<Rightarrow> [])\<rparr>)"
proof -
  have r: "r = None" using teardown_never_raises[of jl m s p w] assms by simp
  have w1: "w1 = snd (teardown jl m s p w)" using assms by simp
  have fds: "open_fds w1 = open_fds w - set_option m - set_option s"
    by (simp add: w1 teardown_fds)
  have cm: "set_option m \<inter> open_fds w1 = {}" using fds by auto
  have cs: "set_option s \<inter> open_fds w1 = {}" using fds by auto
  have "teardown jl m s p w1 = teardown jl None None None w1"
    using cm cs
  proof (rule teardown_closed)
    fix w' :: "'a world"
    assume "fs w' = fs w1"
    then have "fs w' = fs (snd (teardown jl m s p w))" by (simp add: w1)
    then show "remove_symlink p w' = (None, w')" by (rule teardown_symlink_done)
  qed
  then show ?thesis using r by (simp only: teardown_probe_only)
qed

theorem teardown_twice_witness:
  "teardown quiet_probe (Some 3) (Some 4) (Some ''/tmp/rtt'')
      (empty_world\<lparr>open_fds := {3, 4},
         fs := (\<lambda>p. None)(''/tmp/rtt'' \<mapsto> Symlink ''/dev/pts/0'',
                           ''/dev/pts/0'' \<mapsto> OtherFile)\<rparr>)
     = (None, empty_world\<lparr>calls := [RttStop, Close], stderr := [''Cleaning up...''],
                open_fds := {},
                fs := (\<lambda>p. None)(''/tmp/rtt'' \<mapsto> Symlink ''/dev/pts/0'')\<rparr>)
   \<and> teardown quiet_probe (Some 3) (Some 4) (Some ''/tmp/rtt'')
        (empty_world\<lparr>calls := [RttStop, Close], stderr := [''Cleaning up...''],
                open_fds := {},
                fs := (\<lambda>p. None)(''/tmp/rtt'' \<mapsto> Symlink ''/dev/pts/0'')\<rparr>)
     = (None, empty_world\<lparr>calls := [RttStop, Close, RttStop, Close],
                stderr := [''Cleaning up...'', ''Cleaning up...''],
                open_fds := {},
                fs := (\<lambda>p. None)(''/tmp/rtt'' \<mapsto> Symlink ''/dev/pts/0'')\<rparr>)"
proof -
  have first: "teardown quiet_probe (Some 3) (Some 4) (Some ''/tmp/rtt'')
      (empty_world\<lparr>open_fds := {3, 4},
         fs := (\<lambda>p. None)(''/tmp/rtt'' \<mapsto> Symlink ''/dev/pts/0'',
                           ''/dev/pts/0'' \<mapsto> OtherFile)\<rparr>)
     = (None, empty_world\<lparr>calls := [RttStop, Close], stderr := [''Cleaning up...''],
                open_fds := {},
                fs := (\<lambda>p. None)(''/tmp/rtt'' \<mapsto> Symlink ''/dev/pts/0'')\<rparr>)"
    by (auto simp: teardown_def close_quietly_def os_close_def remove_symlink_def
        path_exists_def call_def print_err_def quiet_probe_def empty_world_def
        eval_nat_numeral fun_upd_def)
  from teardown_twice[OF first] first show ?thesis
    by (simp add: quiet_probe_def empty_world_def)
qed

text \<open>The claim as written fails on the state the second run leaves: standard error and
  the log of SDK calls have grown.\<close>

theorem teardown_twice_counterexample:
  "snd (teardown quiet_probe (Some 3) (Some 4) None
          (snd (teardown quiet_probe (Some 3) (Some 4) None
                  (empty_world\<lparr>open_fds := {3, 4}\<rparr>))))
     \<noteq> snd (teardown quiet_probe (Some 3) (Some 4) None (empty_world\<lparr>open_fds := {3, 4}\<rparr>))
   \<and> stderr (snd (teardown quiet_probe (Some 3) (Some 4) None
                    (empty_world\<lparr>open_fds := {3, 4}\<rparr>)))
       = [''Cleaning up...'']
   \<and> stderr (snd (teardown quiet_probe (Some 3) (Some 4) None
          (snd (teardown quiet_probe (Some 3) (Some 4) None
                  (empty_world\<lparr>open_fds := {3, 4}\<rparr>)))))
       = [''Cleaning up...'', ''Cleaning up...'']
   \<and> calls (snd (teardown quiet_probe (Some 3) (Some 4) None
          (snd (teardown quiet_probe (Some 3) (Some 4) None
                  (empty_world\<lparr>open_fds := {3, 4}\<rparr>)))))
       = [RttStop, Close, RttStop, Close]"
proof -
  have first: "teardown quiet_probe (Some 3) (Some 4) None (empty_world\<lparr>open_fds := {3, 4}\<rparr>)
     = (None, empty_world\<lparr>calls := [RttStop, Close], stderr := [''Cleaning up...''],
                open_fds := {}\<rparr>)"
    by (simp add: teardown_def close_quietly_def os_close_def remove_symlink_def
        call_def print_err_def quiet_probe_def empty_world_def)
  have second: "teardown quiet_probe (Some 3) (Some 4) None
        (empty_world\<lparr>calls := [RttStop, Close], stderr := [''Cleaning up...''],
                open_fds := {}\<rparr>)
     = (None, empty_world\<lparr>calls := [RttStop, Close, RttStop, Close],
                stderr := [''Cleaning up...'', ''Cleaning up...''], open_fds := {}\<rparr>)"
    by (simp add: teardown_def close_quietly_def os_close_def remove_symlink_def
        pass_OSError_def os_error_exc_def call_def print_err_def quiet_probe_def
        empty_world_def)
  show ?thesis by (simp add: first second) (simp add: empty_world_def)
qed

section \<open>Properties of the relay loop\<close>

text \<open>The check at the head of an iteration, by the answers of the two queries:
  \<open>jlink.target_connected()\<close> is called only when \<open>jlink.connected()\<close> has answered
  \<open>True\<close>; a query that raises gives \<open>Connection check failed\<close>, one that answers
  \<open>False\<close> gives \<open>Connection lost\<close>.\<close>

lemma connection_check_result:
  "connection_check jl w =
     (case fst (connected jl (env w)) of
        Inl e \<Rightarrow>
          (False, w\<lparr>env := snd (connected jl (env w)), calls := calls w @ [Connected],
                     stderr := stderr w @ [newline # ''Error: Connection check failed'']\<rparr>)
      | Inr c \<Rightarrow>
          if \<not> c then
            (False, w\<lparr>env := snd (connected jl (env w)), calls := calls w @ [Connected],
                       stderr := stderr w @ [newline # ''Error: Connection lost'']\<rparr>)
          else
            (case fst (target_connected jl (snd (connected jl (env w)))) of
               Inl e \<Rightarrow>
                 (False, w\<lparr>env := snd (target_connected jl (snd (connected jl (env w)))),
                            calls := calls w @ [Connected, TargetConnected],
                            stderr := stderr w
                              @ [newline # ''Error: Connection check failed'']\<rparr>)
             | Inr t \<Rightarrow>
                 if \<not> t then
                   (False, w\<lparr>env := snd (target_connected jl (snd (connected jl (env w)))),
                              calls := calls w @ [Connected, TargetConnected],
                              stderr := stderr w @ [newline # ''Error: Connection lost'']\<rparr>)
                 else
                   (True, w\<lparr>env := snd (target_connected jl (snd (connected jl (env w)))),
                             calls := calls w @ [Connected, TargetConnected]\<rparr>)))"
  by (auto simp: connection_check_def call_def print_err_def
      split: prod.splits sum.splits bool.splits)

lemma calls_call: "calls (snd (call c f w)) = calls w @ [c]"
  by (simp add: call_def split: prod.splits)

lemma calls_os_call: "calls (snd (os_call f w)) = calls w"
  by (simp add: os_call_def split: prod.splits)

lemma calls_print_err: "calls (print_err s w) = calls w"
  by (simp add: print_err_def)

lemma calls_sleep_ms: "calls (sleep_ms d w) = calls w"
  by (simp add: sleep_ms_def)

lemma up_handlers_calls: "calls (snd (snd (up_handlers e st w))) = calls w"
  by (simp add: up_handlers_def Let_def calls_print_err calls_sleep_ms split: exc.splits)

text \<open>The up direction makes one SDK call, \<open>rtt_read\<close>.\<close>

lemma up_direction_calls:
  "calls (snd (snd (up_direction jl iu mfd st w))) = calls w @ [RttRead iu 4096]"
proof -
  obtain r w1 where c: "call (RttRead iu 4096) (rtt_read jl iu 4096) w = (r, w1)"
    by (cases "call (RttRead iu 4096) (rtt_read jl iu 4096) w")
  have w1: "calls w1 = calls w @ [RttRead iu 4096]"
    using calls_call[of "RttRead iu 4096" "rtt_read jl iu 4096" w] c by simp
  show ?thesis
  proof (cases r)
    case (Inl e)
    then show ?thesis using c w1 by (simp add: up_direction_def up_handlers_calls)
  next
    case (Inr data)
    obtain rw w2 where o: "os_call (os_write jl mfd data) w1 = (rw, w2)"
      by (cases "os_call (os_write jl mfd data) w1")
    have w2: "calls w2 = calls w1"
      using calls_os_call[of "os_write jl mfd data" w1] o by simp
    show ?thesis using c Inr o w1 w2
      by (cases rw) (simp_all add: up_direction_def up_handlers_calls calls_print_err)
  qed
qed

text \<open>The down direction makes at most one SDK call, \<open>rtt_write\<close>.\<close>

lemma down_direction_calls:
  "calls (snd (down_direction jl idn mfd w)) = calls w
   \<or> (\<exists>d. calls (snd (down_direction jl idn mfd w)) = calls w @ [RttWrite idn d])"
  by (auto simp: down_direction_def select_handler_def read_handler_def os_call_def
      call_def print_err_def
      split: prod.splits sum.splits bool.splits if_splits exc.splits)

text \<open>The SDK calls of one iteration: the connection check, then \<open>rtt_read\<close>, then at
  most one \<open>rtt_write\<close>.\<close>

lemma relay_iteration_calls:
  "\<exists>rest. calls (snd (snd (relay_iteration jl b iu idn mfd st w))) = calls w @ Connected # rest
     \<and> set rest \<subseteq> {TargetConnected, RttRead iu 4096} \<union> range (RttWrite idn)"
proof -
  obtain ok w1 where c: "connection_check jl w = (ok, w1)" by (cases "connection_check jl w")
  have w1: "calls w1 = calls w @ [Connected] \<or> calls w1 = calls w @ [Connected, TargetConnected]"
    using c by (auto simp: connection_check_result split: sum.splits if_splits)
  show ?thesis
  proof (cases ok)
    case False
    then show ?thesis using c w1 by (auto simp: relay_iteration_def)
  next
    case True
    obtain f st1 w2 where u: "up_direction jl iu mfd st w1 = (f, st1, w2)"
      by (cases "up_direction jl iu mfd st w1")
    have w2: "calls w2 = calls w1 @ [RttRead iu 4096]"
      using up_direction_calls[of jl iu mfd st w1] u by simp
    show ?thesis
    proof (cases "f = UpDone \<and> b \<and> idn \<ge> 0")
      case False
      then show ?thesis using c True u w1 w2
        by (cases f) (auto simp: relay_iteration_def calls_sleep_ms)
    next
      case d: True
      obtain fl w3 where dd: "down_direction jl idn mfd w2 = (fl, w3)"
        by (cases "down_direction jl idn mfd w2")
      have "calls w3 = calls w2 \<or> (\<exists>x. calls w3 = calls w2 @ [RttWrite idn x])"
        using down_direction_calls[of jl idn mfd w2] dd by simp
      then show ?thesis using c True u d dd w1 w2 by (auto simp: relay_iteration_def)
    qed
  qed
qed

text \<open>When the check passes, the iteration goes on to read from the up-buffer.\<close>

lemma relay_iteration_relays:
  assumes "fst (connected jl (env w)) = Inr True"
    and "fst (target_connected jl (snd (connected jl (env w)))) = Inr True"
  shows "\<exists>rest. calls (snd (snd (relay_iteration jl b iu idn mfd st w)))
                  = calls w @ [Connected, TargetConnected, RttRead iu 4096] @ rest"
proof -
  obtain w1 where c: "connection_check jl w = (True, w1)"
    and w1: "calls w1 = calls w @ [Connected, TargetConnected]"
    using assms by (simp add: connection_check_result)
  obtain f st1 w2 where u: "up_direction jl iu mfd st w1 = (f, st1, w2)"
    by (cases "up_direction jl iu mfd st w1")
  have w2: "calls w2 = calls w1 @ [RttRead iu 4096]"
    using up_direction_calls[of jl iu mfd st w1] u by simp
  show ?thesis
  proof (cases "f = UpDone \<and> b \<and> idn \<ge> 0")
    case False
    then show ?thesis using c u w1 w2
      by (cases f) (auto simp: relay_iteration_def calls_sleep_ms)
  next
    case d: True
    obtain fl w3 where dd: "down_direction jl idn mfd w2 = (fl, w3)"
      by (cases "down_direction jl idn mfd w2")
    have "calls w3 = calls w2 \<or> (\<exists>x. calls w3 = calls w2 @ [RttWrite idn x])"
      using down_direction_calls[of jl idn mfd w2] dd by simp
    then show ?thesis using c u d dd w1 w2 by (auto simp: relay_iteration_def)
  qed
qed

text \<open>When the loop is left without an exception, \<open>main\<close> goes on to the teardown and
  returns 0.\<close>

lemma main_run_teardown:
  assumes "relay_loop jl (bidir a) iu idn mfd \<lparr>do_exit = False, consecutive_errors = 0\<rparr>
             (print_out ''RTT bridge active. Press Ctrl+C to exit.'' w) = Some (None, st1, w1)"
  shows "main_run jl a iu idn mfd sfd sp w
           = Some (Inr 0, snd (teardown jl (Some mfd) (Some sfd) sp w1))"
proof -
  obtain w3 where t: "teardown jl (Some mfd) (Some sfd) sp w1 = (None, w3)"
    using teardown_never_raises[of jl "Some mfd" "Some sfd" sp w1]
    by (cases "teardown jl (Some mfd) (Some sfd) sp w1") simp
  show ?thesis using assms t by (simp add: main_run_def Let_def)
qed

text \<open>
  Claim C2, as the code has it. Each iteration of the loop begins with the call
  \<open>jlink.connected()\<close>. When that raises or answers \<open>False\<close>, nothing else is called:
  the loop is left at once with one error line on standard error (\<open>Connection check
  failed\<close> when the query raised, \<open>Connection lost\<close> when it answered \<open>False\<close>) and the
  state of the loop unchanged. When it answers \<open>True\<close>, \<open>jlink.target_connected()\<close> is
  called next, and when that raises or answers \<open>False\<close> the loop is left in the same
  way. When both answer \<open>True\<close> the iteration goes on to \<open>rtt_read\<close>. Whatever the
  answers, an iteration calls nothing but \<open>connected\<close>, \<open>target_connected\<close>, \<open>rtt_read\<close>
  and \<open>rtt_write\<close>: the probe-open flag and the device identity are not looked at in
  the loop. After the loop \<open>main\<close> runs the teardown (\<open>main_run_teardown\<close>).
\<close>

theorem relay_loop_connection_check:
  assumes "deliver_signal jl st w = (st0, w0)" and "\<not> do_exit st0"
  shows "(fst (connected jl (env w0)) \<noteq> Inr True \<longrightarrow>
            relay_loop jl b iu idn mfd st w =
              Some (None, st0,
                    w0\<lparr>env := snd (connected jl (env w0)),
                       calls := calls w0 @ [Connected],
                       stderr := stderr w0
                         @ [case fst (connected jl (env w0)) of
                              Inl e \<Rightarrow> newline # ''Error: Connection check failed''
                            | Inr c \<Rightarrow> newline # ''Error: Connection lost'']\<rparr>))
     \<and> (fst (connected jl (env w0)) = Inr True
          \<and> fst (target_connected jl (snd (connected jl (env w0)))) \<noteq> Inr True \<longrightarrow>
            relay_loop jl b iu idn mfd st w =
              Some (None, st0,
                    w0\<lparr>env := snd (target_connected jl (snd (connected jl (env w0)))),
                       calls := calls w0 @ [Connected, TargetConnected],
                       stderr := stderr w0
                         @ [case fst (target_connected jl (snd (connected jl (env w0)))) of
                              Inl e \<Rightarrow> newline # ''Error: Connection check failed''
                            | Inr c \<Rightarrow> newline # ''Error: Connection lost'']\<rparr>))
     \<and> (fst (connected jl (env w0)) = Inr True
          \<and> fst (target_connected jl (snd (connected jl (env w0)))) = Inr True \<longrightarrow>
            (\<exists>rest. calls (snd (snd (relay_iteration jl b iu idn mfd st0 w0)))
                      = calls w0 @ [Connected, TargetConnected, RttRead iu 4096] @ rest))
     \<and> (\<exists>rest. calls (snd (snd (relay_iteration jl b iu idn mfd st0 w0)))
                  = calls w0 @ Connected # rest
          \<and> set rest \<subseteq> {TargetConnected, RttRead iu 4096} \<union> range (RttWrite idn)
          \<and> Opened \<notin> set rest \<and> ProductName \<notin> set rest \<and> SerialNumber \<notin> set rest)"
proof -
  have loop: "relay_loop jl b iu idn mfd st w = Some (None, st0, w1)"
    if "connection_check jl w0 = (False, w1)" for w1
  proof -
    have "relay_iteration jl b iu idn mfd st0 w0 = (Break, st0, w1)"
      using that by (simp add: relay_iteration_def)
    then show ?thesis by (subst relay_loop.simps) (simp add: assms)
  qed
  have a: "relay_loop jl b iu idn mfd st w =
              Some (None, st0,
                    w0\<lparr>env := snd (connected jl (env w0)),
                       calls := calls w0 @ [Connected],
                       stderr := stderr w0
                         @ [case fst (connected jl (env w0)) of
                              Inl e \<Rightarrow> newline # ''Error: Connection check failed''
                            | Inr c \<Rightarrow> newline # ''Error: Connection lost'']\<rparr>)"
    if "fst (connected jl (env w0)) \<noteq> Inr True"
    by (rule loop) (use that in \<open>auto simp: connection_check_result split: sum.splits\<close>)
  have b: "relay_loop jl b iu idn mfd st w =
              Some (None, st0,
                    w0\<lparr>env := snd (target_connected jl (snd (connected jl (env w0)))),
                       calls := calls w0 @ [Connected, TargetConnected],
                       stderr := stderr w0
                         @ [case fst (target_connected jl (snd (connected jl (env w0)))) of
                              Inl e \<Rightarrow> newline # ''Error: Connection check failed''
                            | Inr c \<Rightarrow> newline # ''Error: Connection lost'']\<rparr>)"
    if "fst (connected jl (env w0)) = Inr True"
      and "fst (target_connected jl (snd (connected jl (env w0)))) \<noteq> Inr True"
    by (rule loop) (use that in \<open>auto simp: connection_check_result split: sum.splits\<close>)
  obtain rest where r: "calls (snd (snd (relay_iteration jl b iu idn mfd st0 w0)))
                          = calls w0 @ Connected # rest"
    and s: "set rest \<subseteq> {TargetConnected, RttRead iu 4096} \<union> range (RttWrite idn)"
    using relay_iteration_calls[of jl b iu idn mfd st0 w0] by blast
  have d: "Opened \<notin> set rest \<and> ProductName \<notin> set rest \<and> SerialNumber \<notin> set rest"
    using s by auto
  show ?thesis
    using a b relay_iteration_relays[of jl w0 b iu idn mfd st0] r s d by blast
qed

theorem relay_loop_connection_check_witness:
  "relay_loop disconnected_probe False 0 (- 1) 3 initial_loop_state empty_world
     = Some (None, initial_loop_state,
             empty_world\<lparr>calls := [Connected, TargetConnected],
                          stderr := [newline # ''Error: Connection lost'']\<rparr>)
   \<and> relay_loop (quiet_probe\<lparr>connected := (\<lambda>e. (Inl (JLinkException ''USB error''), e))\<rparr>)
        False 0 (- 1) 3 initial_loop_state empty_world
     = Some (None, initial_loop_state,
             empty_world\<lparr>calls := [Connected],
                          stderr := [newline # ''Error: Connection check failed'']\<rparr>)"
proof -
  have h1: "deliver_signal disconnected_probe initial_loop_state empty_world
              = (initial_loop_state, empty_world)"
    by (simp add: deliver_signal_def disconnected_probe_def quiet_probe_def empty_world_def)
  have h2: "deliver_signal
              (quiet_probe\<lparr>connected := (\<lambda>e. (Inl (JLinkException ''USB error''), e))\<rparr>)
              initial_loop_state empty_world
              = (initial_loop_state, empty_world)"
    by (simp add: deliver_signal_def quiet_probe_def empty_world_def)
  have h3: "\<not> do_exit initial_loop_state" by (simp add: initial_loop_state_def)
  show ?thesis
    using relay_loop_connection_check[OF h1 h3, of False 0 "- 1" 3]
      relay_loop_connection_check[OF h2 h3, of False 0 "- 1" 3]
    by (simp add: disconnected_probe_def quiet_probe_def empty_world_def)
qed

text \<open>The claim as written fails on a probe whose DLL is no longer open and whose
  identity query fails while both connection flags are true: the startup check
  \<open>verify_jlink_connection\<close> rejects it, the loop goes on relaying and never asks.\<close>

theorem relay_iteration_session_guard_counterexample:
  "fst (verify_jlink_connection unopened_probe empty_world)
     = Some (RTTBridgeError ''J-Link DLL is not open'')
   \<and> fst (relay_iteration unopened_probe False 0 (- 1) 3 initial_loop_state empty_world)
       = Continue
   \<and> calls (snd (snd (relay_iteration unopened_probe False 0 (- 1) 3 initial_loop_state
                        empty_world)))
       = [Connected, TargetConnected, RttRead 0 4096]"
  by (simp add: verify_jlink_connection_def relay_iteration_def connection_check_def
      up_direction_def call_def sleep_ms_def unopened_probe_def quiet_probe_def
      empty_world_def initial_loop_state_def)

text \<open>
  Claim C7, as the code has it. In a bidirectional iteration in which the PTY is
  readable and the operator's input is not empty, a write to the down-buffer that
  raises \<open>JLinkRTTException\<close> gives one warning on standard error and the iteration
  ends normally, so the loop goes on. Any other exception raised by the write is not
  caught as a warning: the iteration ends with \<open>break\<close> or with the exception leaving
  the loop.
\<close>

theorem down_write_failure:
  assumes "connection_check jl w = (True, w1)"
    and "up_direction jl iu mfd st w1 = (UpDone, st1, w2)"
    and "b" and "0 \<le> idn"
    and "os_call (select_readable jl mfd) w2 = (Inr True, w3)"
    and "os_call (os_read jl mfd 4096) w3 = (Inr data, w4)" and "data \<noteq> []"
    and "call (RttWrite idn data) (rtt_write jl idn data) w4 = (Inl e, w5)"
  shows "(\<forall>m. e = JLinkRTTException m \<longrightarrow>
            relay_iteration jl b iu idn mfd st w =
              (Continue, st1,
               print_err (newline # ''Warning: Failed to write to RTT buffer: '' @ m) w5))
       \<and> ((\<forall>m. e \<noteq> JLinkRTTException m) \<longrightarrow>
            fst (relay_iteration jl b iu idn mfd st w) \<noteq> Continue)"
proof -
  have d: "down_direction jl idn mfd w2 =
             (case e of
                JLinkRTTException m \<Rightarrow>
                  (Continue,
                   print_err (newline # ''Warning: Failed to write to RTT buffer: ''
                              @ str_exc e) w5)
              | _ \<Rightarrow> read_handler e w5)"
    using assms(5-8) by (simp add: down_direction_def)
  have it: "relay_iteration jl b iu idn mfd st w =
              (fst (down_direction jl idn mfd w2), st1, snd (down_direction jl idn mfd w2))"
    using assms(1-4) by (simp add: relay_iteration_def split: prod.splits)
  have rh: "fst (read_handler e w5) \<noteq> Continue"
    by (simp add: read_handler_def select_handler_def split: exc.splits)
  show ?thesis
  proof (intro conjI allI impI)
    fix m assume "e = JLinkRTTException m"
    then show "relay_iteration jl b iu idn mfd st w =
              (Continue, st1,
               print_err (newline # ''Warning: Failed to write to RTT buffer: '' @ m) w5)"
      using it d by simp
  next
    assume "\<forall>m. e \<noteq> JLinkRTTException m"
    then have "down_direction jl idn mfd w2 = read_handler e w5"
      using d by (cases e) simp_all
    then show "fst (relay_iteration jl b iu idn mfd st w) \<noteq> Continue"
      using it rh by simp
  qed
qed

theorem down_write_failure_witness:
  "connection_check (typing_probe (JLinkRTTException ''-1'')) empty_world
     = (True, empty_world\<lparr>calls := [Connected, TargetConnected]\<rparr>)
   \<and> relay_iteration (typing_probe (JLinkRTTException ''-1'')) True 0 0 3
       initial_loop_state empty_world =
       (Continue, initial_loop_state,
        empty_world\<lparr>calls := [Connected, TargetConnected, RttRead 0 4096,
                               RttWrite 0 [112, 105, 110, 103]],
                     stderr := [newline # ''Warning: Failed to write to RTT buffer: -1'']\<rparr>)
   \<and> fst (relay_iteration (typing_probe (JLinkException ''J-Link connection has been lost''))
            True 0 0 3 initial_loop_state empty_world) \<noteq> Continue"
proof -
  let ?rtt = "typing_probe (JLinkRTTException ''-1'')"
  let ?jl = "typing_probe (JLinkException ''J-Link connection has been lost'')"
  let ?w1 = "empty_world\<lparr>calls := [Connected, TargetConnected]\<rparr>"
  let ?w2 = "empty_world\<lparr>calls := [Connected, TargetConnected, RttRead 0 4096]\<rparr>"
  let ?w5 = "empty_world\<lparr>calls := [Connected, TargetConnected, RttRead 0 4096,
                                     RttWrite 0 [112, 105, 110, 103]]\<rparr>"
  have c: "connection_check (typing_probe x) empty_world = (True, ?w1)" for x
    by (simp add: connection_check_def call_def typing_probe_def quiet_probe_def empty_world_def)
  have u: "up_direction (typing_probe x) 0 3 initial_loop_state ?w1
             = (UpDone, initial_loop_state, ?w2)" for x
    by (simp add: up_direction_def call_def typing_probe_def quiet_probe_def empty_world_def)
  have s: "os_call (select_readable (typing_probe x) 3) ?w2 = (Inr True, ?w2)" for x
    by (simp add: os_call_def typing_probe_def quiet_probe_def empty_world_def)
  have r: "os_call (os_read (typing_probe x) 3 4096) ?w2 = (Inr [112, 105, 110, 103], ?w2)" for x
    by (simp add: os_call_def typing_probe_def quiet_probe_def empty_world_def)
  have wr: "call (RttWrite 0 [112, 105, 110, 103])
              (rtt_write (typing_probe x) 0 [112, 105, 110, 103]) ?w2 = (Inl x, ?w5)" for x
    by (simp add: call_def typing_probe_def quiet_probe_def empty_world_def)
  have ne: "[112, 105, 110, 103] \<noteq> ([] :: nat list)" by simp
  have t: "True" and z: "(0::int) \<le> 0" by simp_all
  from down_write_failure[OF c u t z s r ne wr, of "JLinkRTTException ''-1''"]
  have a: "relay_iteration ?rtt True 0 0 3 initial_loop_state empty_world =
             (Continue, initial_loop_state,
              print_err (newline # ''Warning: Failed to write to RTT buffer: '' @ ''-1'') ?w5)"
    by simp
  from down_write_failure[OF c u t z s r ne wr,
         of "JLinkException ''J-Link connection has been lost''"]
  have b: "fst (relay_iteration ?jl True 0 0 3 initial_loop_state empty_world) \<noteq> Continue"
    by simp
  show ?thesis using a b c by (simp add: print_err_def empty_world_def)
qed

text \<open>The claim as written fails when the write raises the \<open>JLinkException\<close> that pylink
  raises for a lost connection: no warning is printed and the exception leaves the
  loop, which ends.\<close>

theorem down_write_failure_counterexample:
  "relay_iteration (typing_probe (JLinkException ''J-Link connection has been lost''))
     True 0 0 3 initial_loop_state empty_world =
     (Raise (JLinkException ''J-Link connection has been lost''), initial_loop_state,
      empty_world\<lparr>calls := [Connected, TargetConnected, RttRead 0 4096,
                             RttWrite 0 [112, 105, 110, 103]]\<rparr>)
   \<and> relay_loop (typing_probe (JLinkException ''J-Link connection has been lost''))
       True 0 0 3 initial_loop_state empty_world =
     Some (Some (JLinkException ''J-Link connection has been lost''), initial_loop_state,
           empty_world\<lparr>calls := [Connected, TargetConnected, RttRead 0 4096,
                                  RttWrite 0 [112, 105, 110, 103]]\<rparr>)"
proof -
  have it: "relay_iteration (typing_probe (JLinkException ''J-Link connection has been lost''))
     True 0 0 3 initial_loop_state empty_world =
     (Raise (JLinkException ''J-Link connection has been lost''), initial_loop_state,
      empty_world\<lparr>calls := [Connected, TargetConnected, RttRead 0 4096,
                             RttWrite 0 [112, 105, 110, 103]]\<rparr>)"
    by (simp add: relay_iteration_def connection_check_def up_direction_def
        down_direction_def read_handler_def select_handler_def call_def os_call_def
        typing_probe_def quiet_probe_def empty_world_def initial_loop_state_def)
  have d: "deliver_signal (typing_probe (JLinkException ''J-Link connection has been lost''))
             initial_loop_state empty_world = (initial_loop_state, empty_world)"
    by (simp add: deliver_signal_def typing_probe_def quiet_probe_def empty_world_def)
  have l: "relay_loop (typing_probe (JLinkException ''J-Link connection has been lost''))
       True 0 0 3 initial_loop_state empty_world =
     Some (Some (JLinkException ''J-Link connection has been lost''), initial_loop_state,
           empty_world\<lparr>calls := [Connected, TargetConnected, RttRead 0 4096,
                                  RttWrite 0 [112, 105, 110, 103]]\<rparr>)"
    by (subst relay_loop.simps) (simp add: d it, simp add: initial_loop_state_def)
  show ?thesis using it l by simp
qed

text \<open>
  Claim C10. In an iteration that gets past the connection check, a read from the
  up-buffer that returns an empty chunk leaves the counter of consecutive errors as it
  was. The counter is set to zero exactly when the read raises \<open>JLinkRTTException\<close> ("no
  data") or when a chunk that is not empty has been written to the PTY master without
  an \<open>OSError\<close>; in every other case it keeps its value or grows by one.
\<close>

theorem consecutive_errors_reset:
  assumes "connection_check jl w = (True, w1)"
    and "call (RttRead iu 4096) (rtt_read jl iu 4096) w1 = (r, w2)"
  shows "(r = Inr [] \<longrightarrow>
            consecutive_errors (fst (snd (relay_iteration jl b iu idn mfd st w)))
              = consecutive_errors st)
       \<and> ((\<exists>m. r = Inl (JLinkRTTException m))
           \<or> (\<exists>data n. r = Inr data \<and> data \<noteq> []
                \<and> fst (os_call (os_write jl mfd data) w2) = Inr n) \<longrightarrow>
            consecutive_errors (fst (snd (relay_iteration jl b iu idn mfd st w))) = 0)
       \<and> (\<not> ((\<exists>m. r = Inl (JLinkRTTException m))
           \<or> (\<exists>data n. r = Inr data \<and> data \<noteq> []
                \<and> fst (os_call (os_write jl mfd data) w2) = Inr n)) \<longrightarrow>
            consecutive_errors (fst (snd (relay_iteration jl b iu idn mfd st w)))
              = consecutive_errors st
            \<or> consecutive_errors (fst (snd (relay_iteration jl b iu idn mfd st w)))
              = consecutive_errors st + 1)"
proof -
  have st': "fst (snd (relay_iteration jl b iu idn mfd st w))
               = fst (snd (up_direction jl iu mfd st w1))"
    using assms(1)
    by (simp add: relay_iteration_def split: prod.splits up_flow.splits)
  have h: "consecutive_errors (fst (snd (up_handlers e st v))) =
             (case e of JLinkRTTException m \<Rightarrow> 0
              | JLinkException m \<Rightarrow> consecutive_errors st + 1
              | _ \<Rightarrow> consecutive_errors st)" for e and v :: "'a world"
    by (simp add: up_handlers_def Let_def split: exc.splits)
  show ?thesis
  proof (cases r)
    case (Inl e)
    then have "consecutive_errors (fst (snd (up_direction jl iu mfd st w1))) =
             (case e of JLinkRTTException m \<Rightarrow> 0
              | JLinkException m \<Rightarrow> consecutive_errors st + 1
              | _ \<Rightarrow> consecutive_errors st)"
      using assms(2) h by (simp add: up_direction_def)
    then show ?thesis using Inl st' by (cases e) simp_all
  next
    case (Inr data)
    show ?thesis
    proof (cases "data = []")
      case True
      then show ?thesis using Inr assms(2) st' by (simp add: up_direction_def)
    next
      case False
      obtain rw w3 where o: "os_call (os_write jl mfd data) w2 = (rw, w3)"
        by (cases "os_call (os_write jl mfd data) w2")
      show ?thesis
      proof (cases rw)
        case (Inl oe)
        have "consecutive_errors (fst (snd (up_handlers (os_error_exc oe) st w3)))
                = consecutive_errors st"
          by (simp add: h os_error_exc_def)
        then have "consecutive_errors (fst (snd (up_direction jl iu mfd st w1)))
                     = consecutive_errors st"
          using Inr False assms(2) o Inl by (simp add: up_direction_def)
        then show ?thesis using Inr False o Inl st' by simp
      next
        case (Inr n)
        then have "consecutive_errors (fst (snd (up_direction jl iu mfd st w1))) = 0"
          using \<open>r = Inr data\<close> False assms(2) o by (simp add: up_direction_def)
        then show ?thesis using \<open>r = Inr data\<close> False o Inr st' by simp
      qed
    qed
  qed
qed

theorem consecutive_errors_reset_witness:
  "connection_check quiet_probe empty_world
     = (True, empty_world\<lparr>calls := [Connected, TargetConnected]\<rparr>)
   \<and> fst (call (RttRead 0 4096) (rtt_read quiet_probe 0 4096)
            (empty_world\<lparr>calls := [Connected, TargetConnected]\<rparr>)) = Inr []
   \<and> consecutive_errors (fst (snd (relay_iteration quiet_probe False 0 (- 1) 3
        \<lparr>do_exit = False, consecutive_errors = 4\<rparr> empty_world))) = 4
   \<and> consecutive_errors (fst (snd (relay_iteration
        (quiet_probe\<lparr>rtt_read := (\<lambda>i n e. (Inl (JLinkRTTException ''no data''), e))\<rparr>)
        False 0 (- 1) 3 \<lparr>do_exit = False, consecutive_errors = 4\<rparr> empty_world))) = 0
   \<and> consecutive_errors (fst (snd (relay_iteration
        (quiet_probe\<lparr>rtt_read := (\<lambda>i n e. (Inr [104, 105], e))\<rparr>)
        False 0 (- 1) 3 \<lparr>do_exit = False, consecutive_errors = 4\<rparr> empty_world))) = 0
   \<and> consecutive_errors (fst (snd (relay_iteration
        (quiet_probe\<lparr>rtt_read := (\<lambda>i n e. (Inl (JLinkException ''lost''), e))\<rparr>)
        False 0 (- 1) 3 \<lparr>do_exit = False, consecutive_errors = 4\<rparr> empty_world))) = 5"
proof -
  let ?w1 = "empty_world\<lparr>calls := [Connected, TargetConnected]\<rparr>"
  let ?w2 = "empty_world\<lparr>calls := [Connected, TargetConnected, RttRead 0 4096]\<rparr>"
  let ?st = "\<lparr>do_exit = False, consecutive_errors = 4\<rparr>"
  have c: "connection_check (quiet_probe\<lparr>rtt_read := f\<rparr>) empty_world = (True, ?w1)" for f
    by (simp add: connection_check_def call_def quiet_probe_def empty_world_def)
  have c0: "connection_check quiet_probe empty_world = (True, ?w1)"
    by (simp add: connection_check_def call_def quiet_probe_def empty_world_def)
  have r0: "call (RttRead 0 4096) (rtt_read quiet_probe 0 4096) ?w1 = (Inr [], ?w2)"
    by (simp add: call_def quiet_probe_def empty_world_def)
  have r: "call (RttRead 0 4096) (rtt_read (quiet_probe\<lparr>rtt_read := (\<lambda>i n e. (x, e))\<rparr>) 0 4096) ?w1
             = (x, ?w2)" for x
    by (simp add: call_def quiet_probe_def empty_world_def)
  have ow: "fst (os_call (os_write (quiet_probe\<lparr>rtt_read := f\<rparr>) 3 [104, 105]) ?w2) = Inr 2" for f
    by (simp add: os_call_def quiet_probe_def empty_world_def)
  from consecutive_errors_reset[OF c0 r0, of False "- 1" 3 ?st]
  have a: "consecutive_errors (fst (snd (relay_iteration quiet_probe False 0 (- 1) 3
              ?st empty_world))) = 4"
    by simp
  from consecutive_errors_reset[OF c[of "\<lambda>i n e. (Inl (JLinkRTTException ''no data''), e)"]
         r[of "Inl (JLinkRTTException ''no data'')"], of False "- 1" 3 ?st]
  have b: "consecutive_errors (fst (snd (relay_iteration
        (quiet_probe\<lparr>rtt_read := (\<lambda>i n e. (Inl (JLinkRTTException ''no data''), e))\<rparr>)
        False 0 (- 1) 3 ?st empty_world))) = 0"
    by simp
  from consecutive_errors_reset[OF c[of "\<lambda>i n e. (Inr [104, 105], e)"]
         r[of "Inr [104, 105]"], of False "- 1" 3 ?st] ow
  have d: "consecutive_errors (fst (snd (relay_iteration
        (quiet_probe\<lparr>rtt_read := (\<lambda>i n e. (Inr [104, 105], e))\<rparr>)
        False 0 (- 1) 3 ?st empty_world))) = 0"
    by simp
  have e: "consecutive_errors (fst (snd (relay_iteration
        (quiet_probe\<lparr>rtt_read := (\<lambda>i n e. (Inl (JLinkException ''lost''), e))\<rparr>)
        False 0 (- 1) 3 ?st empty_world))) = 5"
    by (simp add: relay_iteration_def connection_check_def up_direction_def up_handlers_def
        max_consecutive_errors_def call_def sleep_ms_def quiet_probe_def empty_world_def)
  show ?thesis using c0 r0 a b d e by simp
qed

section \<open>The quiet session, step by step\<close>

text \<open>What the stages of \<open>main\<close> do on the quiet session, from any state of the world.\<close>

lemma quiet_env: "(w :: unit world)\<lparr>env := ()\<rparr> = w"
  by simp

lemma format_d_0: "format_d 0 = ''0''"
  by (simp add: format_d_def dec_digits.simps char_of_def)

lemma format_d_1024: "format_d 1024 = ''1024''"
  by (simp add: format_d_def dec_digits.simps char_of_def)

lemma format_d_123456: "format_d 123456 = ''123456''"
  by (simp add: format_d_def dec_digits.simps char_of_def)

lemma py_range_1: "py_range 1 = [0]"
  by (simp add: py_range_def)

lemma py_range_3: "py_range 3 = [0, 1, 2]"
  by (simp add: py_range_def eval_nat_numeral upt_rec)

lemma strip_Missing: "strip ''Missing'' = ''Missing''"
  by (simp add: strip_def lstrip_def rstrip_def py_isspace_def)

lemma strip_Terminal: "strip ''Terminal'' = ''Terminal''"
  by (simp add: strip_def lstrip_def rstrip_def py_isspace_def)

lemma quiet_is_rtt_active:
  "is_rtt_active quiet_probe w = (True, w\<lparr>calls := calls w @ [RttIsActive]\<rparr>)"
  by (simp add: is_rtt_active_def call_def quiet_probe_def quiet_env)

lemma quiet_wait_for_rtt:
  "wait_for_rtt quiet_probe t w = (True, w\<lparr>calls := calls w @ [RttIsActive]\<rparr>)"
  by (subst wait_for_rtt.simps) (simp add: quiet_is_rtt_active)

lemma quiet_print_up:
  "print_direction quiet_probe True w =
     (Inr True, w\<lparr>calls := calls w @ [RttGetNumUpBuffers, RttGetBufDescriptor 0 True],
                  stdout := stdout w @ [''Up-buffers:'', ''  #0 Terminal (size=1024)'']\<rparr>)"
  by (simp add: print_direction_def rtt_get_num_buffers_def
      call_def print_out_def py_range_1 buffer_name_of_def descriptor_line_def
      terminal_desc_def rstrip_nul_def format_d_0 format_d_1024 quiet_probe_def Let_def
      quiet_env)

lemma quiet_print_down:
  "print_direction quiet_probe False w =
     (Inr True, w\<lparr>calls := calls w @ [RttGetNumDownBuffers],
                  stdout := stdout w @ [''Down-buffers:'', ''  (none)'']\<rparr>)"
  by (simp add: print_direction_def rtt_get_num_buffers_def
      call_def print_out_def quiet_probe_def Let_def quiet_env)

lemma quiet_print_buffers:
  "print_buffers quiet_probe w =
     (True, w\<lparr>calls := calls w @ [RttIsActive, RttGetNumUpBuffers, RttGetBufDescriptor 0 True,
                                   RttGetNumDownBuffers],
              stdout := stdout w @ [''Up-buffers:'', ''  #0 Terminal (size=1024)'',
                                    ''Down-buffers:'', ''  (none)'']\<rparr>)"
  by (simp add: print_buffers_def quiet_is_rtt_active quiet_print_up quiet_print_down)

lemma quiet_close_and_return:
  "close_and_return quiet_probe code w = (Inr code, w\<lparr>calls := calls w @ [Close]\<rparr>)"
  by (simp add: close_and_return_def call_def quiet_probe_def quiet_env)

lemma quiet_scan_Missing:
  "scan_buffers quiet_probe ''Missing'' True [0] w
     = (Inr None, w\<lparr>calls := calls w @ [RttGetBufDescriptor 0 True]\<rparr>)"
  by (simp add: call_def buffer_name_of_def terminal_desc_def rstrip_nul_def quiet_probe_def
      quiet_env)

lemma quiet_find_Missing:
  "find_buffer_by_name quiet_probe ''Missing'' True 3 w =
     (Inr (- 1, None),
      w\<lparr>calls := calls w @ [RttIsActive, RttGetNumUpBuffers, RttGetBufDescriptor 0 True]\<rparr>)"
proof -
  have n: "rtt_get_num_buffers quiet_probe True w'
             = (Inr 1, w'\<lparr>calls := calls w' @ [RttGetNumUpBuffers]\<rparr>)" for w' :: "unit world"
    by (simp add: rtt_get_num_buffers_def call_def quiet_probe_def quiet_env)
  have "attempt quiet_probe ''Missing'' True 3 0 w =
     (Inr (Done (- 1, None)),
      w\<lparr>calls := calls w @ [RttIsActive, RttGetNumUpBuffers, RttGetBufDescriptor 0 True]\<rparr>)"
    by (simp add: attempt_def attempt_body_def quiet_is_rtt_active n py_range_1
        quiet_scan_Missing del: scan_buffers.simps)
  then show ?thesis
    by (simp add: find_buffer_by_name_def strip_Missing py_range_3)
qed

text \<open>From the creation of the \<open>JLink\<close> object to the point where RTT is active, when no
  serial number and no address are given.\<close>

lemma quiet_session_start:
  assumes "serial a = None" and "given (address a) = None"
  shows "main_session quiet_probe a w =
     stage_listing quiet_probe a
       (w\<lparr>calls := calls w @ [NewJLink, Open None, Opened, SetTif, SetSpeed (speed a),
                               Connect (device a), Opened, Connected, TargetConnected,
                               ProductName, SerialNumber, ProductName, SerialNumber,
                               RttStart AutoDetect, RttIsActive],
          stdout := stdout w @ [''Connecting to J-Link...'',
                                ''Connecting to '' @ device a @ ''...'', ''Connected to:'',
                                ''  J-Link'', ''  S/N: 123456'', ''Configuring RTT...'',
                                ''Using auto-detection for RTT control block...'',
                                ''Searching for RTT control block...''],
          clock := clock w + 500\<rparr>)"
proof -
  have v: "verify_jlink_connection quiet_probe w' =
             (None, w'\<lparr>calls := calls w' @ [Opened, Connected, TargetConnected, ProductName,
                                            SerialNumber]\<rparr>)" for w' :: "unit world"
    by (simp add: verify_jlink_connection_def call_def quiet_probe_def quiet_env)
  have i: "print_device_info quiet_probe w' =
             w'\<lparr>calls := calls w' @ [ProductName, SerialNumber],
                stdout := stdout w' @ [''  J-Link'', ''  S/N: 123456'']\<rparr>" for w' :: "unit world"
    by (simp add: print_device_info_def call_def print_out_def format_d_123456 quiet_probe_def
        quiet_env Let_def)
  have s: "start_rtt quiet_probe a AutoDetect w' =
             stage_wait quiet_probe a (w'\<lparr>calls := calls w' @ [RttStart AutoDetect]\<rparr>)"
    for w' :: "unit world"
    by (simp add: start_rtt_def call_def quiet_probe_def quiet_env)
  have t: "stage_wait quiet_probe a w' =
             stage_listing quiet_probe a
               (w'\<lparr>calls := calls w' @ [RttIsActive],
                   stdout := stdout w' @ [''Searching for RTT control block...''],
                   clock := clock w' + 500\<rparr>)" for w' :: "unit world"
    by (simp add: stage_wait_def Let_def quiet_wait_for_rtt print_out_def sleep_ms_def;
        rule arg_cong[where f = "stage_listing quiet_probe a"]; simp)
  have r: "stage_rtt quiet_probe a w' =
             stage_listing quiet_probe a
               (w'\<lparr>calls := calls w' @ [RttStart AutoDetect, RttIsActive],
                   stdout := stdout w' @ [''Configuring RTT...'',
                                          ''Using auto-detection for RTT control block...'',
                                          ''Searching for RTT control block...''],
                   clock := clock w' + 500\<rparr>)" for w' :: "unit world"
    by (simp add: stage_rtt_def Let_def assms(2) s t print_out_def;
        rule arg_cong[where f = "stage_listing quiet_probe a"]; simp)
  have y: "stage_verify quiet_probe a w' =
             stage_listing quiet_probe a
               (w'\<lparr>calls := calls w' @ [Opened, Connected, TargetConnected, ProductName,
                                        SerialNumber, ProductName, SerialNumber,
                                        RttStart AutoDetect, RttIsActive],
                   stdout := stdout w' @ [''Connected to:'', ''  J-Link'', ''  S/N: 123456'',
                                          ''Configuring RTT...'',
                                          ''Using auto-detection for RTT control block...'',
                                          ''Searching for RTT control block...''],
                   clock := clock w' + 500\<rparr>)" for w' :: "unit world"
    by (simp add: stage_verify_def v i r print_out_def;
        rule arg_cong[where f = "stage_listing quiet_probe a"]; simp)
  have q: "new_JLink quiet_probe = (\<lambda>e. (Inr (), e))"
    "jl_open quiet_probe = (\<lambda>sn e. (Inr (), e))"
    "opened quiet_probe = (\<lambda>e. (Inr True, e))"
    "set_tif quiet_probe = (\<lambda>e. (Inr (), e))"
    "set_speed quiet_probe = (\<lambda>s e. (Inr (), e))"
    "connect quiet_probe = (\<lambda>d e. (Inr (), e))"
    by (simp_all add: quiet_probe_def)
  have d: "stage_device quiet_probe a w' =
             stage_listing quiet_probe a
               (w'\<lparr>calls := calls w' @ [SetTif, SetSpeed (speed a), Connect (device a), Opened,
                                        Connected, TargetConnected, ProductName,
                                        SerialNumber, ProductName, SerialNumber,
                                        RttStart AutoDetect, RttIsActive],
                   stdout := stdout w' @ [''Connecting to '' @ device a @ ''...'',
                                          ''Connected to:'', ''  J-Link'', ''  S/N: 123456'',
                                          ''Configuring RTT...'',
                                          ''Using auto-detection for RTT control block...'',
                                          ''Searching for RTT control block...''],
                   clock := clock w' + 500\<rparr>)" for w' :: "unit world"
    by (simp add: stage_device_def Let_def call_def print_out_def q quiet_env y;
        rule arg_cong[where f = "stage_listing quiet_probe a"]; simp)
  show ?thesis
    by (simp add: main_session_def stage_open_def Let_def assms(1) call_def print_out_def
        q quiet_env d;
        rule arg_cong[where f = "stage_listing quiet_probe a"]; simp)
qed

section \<open>Properties of the buffer listing\<close>

lemma is_rtt_active_streams:
  "stderr (snd (is_rtt_active jl w)) = stderr w" "stdout (snd (is_rtt_active jl w)) = stdout w"
  by (simp_all add: is_rtt_active_def call_def split: prod.splits sum.splits)

lemma rtt_get_num_buffers_streams:
  "stderr (snd (rtt_get_num_buffers jl up w)) = stderr w"
  "stdout (snd (rtt_get_num_buffers jl up w)) = stdout w"
  by (simp_all add: rtt_get_num_buffers_def call_def split: prod.splits)

text \<open>The loop over the descriptors prints on standard output only.\<close>

lemma list_buffers_streams:
  "stderr (snd (list_buffers jl up ixs w)) = stderr w
   \<and> (\<exists>xs. stdout (snd (list_buffers jl up ixs w)) = stdout w @ xs)"
proof (induction ixs arbitrary: w)
  case Nil
  show ?case by simp
next
  case (Cons i rest)
  obtain r w1 where c: "call (RttGetBufDescriptor i up) (rtt_get_buf_descriptor jl i up) w = (r, w1)"
    by (cases "call (RttGetBufDescriptor i up) (rtt_get_buf_descriptor jl i up) w")
  have f: "stderr w1 = stderr w" "stdout w1 = stdout w"
    using call_frame(3,4)[of "RttGetBufDescriptor i up" "rtt_get_buf_descriptor jl i up" w] c
    by simp_all
  have p: "stderr (snd (list_buffers jl up rest (print_out l w1))) = stderr w
           \<and> (\<exists>xs. stdout (snd (list_buffers jl up rest (print_out l w1))) = stdout w @ xs)"
    for l
    using Cons.IH[of "print_out l w1"] f by (auto simp: print_out_def)
  have q: "stderr (snd (list_buffers jl up rest w1)) = stderr w
           \<and> (\<exists>xs. stdout (snd (list_buffers jl up rest w1)) = stdout w @ xs)"
    using Cons.IH[of w1] f by simp
  show ?case
  proof (cases r)
    case (Inl e)
    then show ?thesis using c f p[of "descriptor_error_line i e"] by simp
  next
    case (Inr od)
    show ?thesis
    proof (cases od)
      case None
      then show ?thesis using c Inr q by simp
    next
      case (Some d)
      show ?thesis
      proof (cases "buffer_name_of jl d")
        case (Inl e)
        then show ?thesis using c Inr Some f p[of "descriptor_error_line i e"] by simp
      next
        case (Inr nm)
        then show ?thesis using c \<open>r = Inr od\<close> Some p[of "descriptor_line i nm d"] by simp
      qed
    qed
  qed
qed

text \<open>One direction of a listing that succeeds: the heading and the buffer lines are on
  standard output, nothing is on standard error.\<close>

lemma print_direction_streams:
  assumes "print_direction jl up w = (Inr True, w')"
  shows "stderr w' = stderr w
     \<and> (\<exists>xs. stdout w' = stdout w @ (if up then ''Up-buffers:'' else ''Down-buffers:'') # xs)"
proof -
  define w0 where "w0 = print_out (if up then ''Up-buffers:'' else ''Down-buffers:'') w"
  obtain r w1 where n: "rtt_get_num_buffers jl up w0 = (r, w1)"
    by (cases "rtt_get_num_buffers jl up w0")
  have f: "stderr w1 = stderr w"
    "stdout w1 = stdout w @ [if up then ''Up-buffers:'' else ''Down-buffers:'']"
    using rtt_get_num_buffers_streams[of jl up w0] n by (simp_all add: w0_def print_out_def)
  have pd: "print_direction jl up w =
      (case r of
         Inl e \<Rightarrow>
           (case e of
              JLinkRTTException m \<Rightarrow>
                (Inr False,
                 print_err ((if up then ''  Error reading up-buffers: ''
                             else ''  Error reading down-buffers: '') @ str_exc e) w1)
            | _ \<Rightarrow> (Inl e, w1))
       | Inr num \<Rightarrow>
           if num = 0 then (Inr True, print_out ''  (none)'' w1)
           else (case list_buffers jl up (py_range num) w1 of
                   (None, w2) \<Rightarrow> (Inr True, w2)
                 | (Some e, w2) \<Rightarrow>
                     (case e of
                        JLinkRTTException m \<Rightarrow>
                          (Inr False,
                           print_err ((if up then ''  Error reading up-buffers: ''
                                       else ''  Error reading down-buffers: '') @ str_exc e) w2)
                      | _ \<Rightarrow> (Inl e, w2))))"
    using n[unfolded w0_def] by (simp add: print_direction_def Let_def)
  show ?thesis
  proof (cases r)
    case (Inl e)
    then show ?thesis using assms pd by (simp split: exc.splits)
  next
    case (Inr num)
    show ?thesis
    proof (cases "num = 0")
      case True
      then have "w' = print_out ''  (none)'' w1" using assms pd Inr by simp
      then show ?thesis using f by (simp add: print_out_def)
    next
      case False
      obtain e2 w2 where l: "list_buffers jl up (py_range num) w1 = (e2, w2)"
        by (cases "list_buffers jl up (py_range num) w1")
      have g: "stderr w2 = stderr w1 \<and> (\<exists>xs. stdout w2 = stdout w1 @ xs)"
        using list_buffers_streams[of jl up "py_range num" w1] l by simp
      have "e2 = None \<and> w' = w2"
        using assms pd Inr False l by (cases e2) (auto split: exc.splits)
      then show ?thesis using g f by auto
    qed
  qed
qed

text \<open>A listing that succeeds puts all of its lines on standard output.\<close>

lemma print_buffers_streams:
  assumes "print_buffers jl w = (True, w')"
  shows "stderr w' = stderr w
     \<and> (\<exists>xs ys. stdout w' = stdout w @ ''Up-buffers:'' # xs @ ''Down-buffers:'' # ys)"
proof -
  obtain b w1 where a: "is_rtt_active jl w = (b, w1)" by (cases "is_rtt_active jl w")
  have f1: "stderr w1 = stderr w" "stdout w1 = stdout w"
    using is_rtt_active_streams[of jl w] a by simp_all
  obtain r2 w2 where u: "print_direction jl True w1 = (r2, w2)"
    by (cases "print_direction jl True w1")
  obtain r3 w3 where d: "print_direction jl False w2 = (r3, w3)"
    by (cases "print_direction jl False w2")
  have b: "b" using assms a by (cases b) (simp_all add: print_buffers_def)
  have r2: "r2 = Inr True"
    using assms a b u by (cases r2) (auto simp: print_buffers_def split: bool.splits)
  have r3: "r3 = Inr True \<and> w' = w3"
    using assms a b u r2 d by (cases r3) (auto simp: print_buffers_def split: bool.splits)
  have g2: "stderr w2 = stderr w1 \<and> (\<exists>xs. stdout w2 = stdout w1 @ ''Up-buffers:'' # xs)"
    using print_direction_streams[of jl True w1 w2] u r2 by simp
  have g3: "stderr w3 = stderr w2 \<and> (\<exists>ys. stdout w3 = stdout w2 @ ''Down-buffers:'' # ys)"
    using print_direction_streams[of jl False w2 w3] d r3 by simp
  obtain xs where xs: "stdout w2 = stdout w1 @ ''Up-buffers:'' # xs" using g2 by blast
  obtain ys where ys: "stdout w3 = stdout w2 @ ''Down-buffers:'' # ys" using g3 by blast
  have "stdout w' = stdout w @ ''Up-buffers:'' # xs @ ''Down-buffers:'' # ys"
    using xs ys r3 f1 by simp
  then show ?thesis using f1 g2 g3 r3 by auto
qed

section \<open>Properties of the argument validation\<close>

lemma py_int_error: "py_int base s = Inl e \<Longrightarrow> \<exists>m. e = ValueError m"
  by (auto simp: py_int_def Let_def split: literal.splits)

lemma range_token_error: "range_token t = Inl e \<Longrightarrow> \<exists>m. e = ValueError m"
  by (auto simp: range_token_def dest: py_int_error split: if_splits)

text \<open>\<open>parse_address\<close> raises nothing but \<open>ValueError\<close>.\<close>

lemma parse_address_error: "parse_address s = Inl e \<Longrightarrow> \<exists>m. e = ValueError m"
  by (auto simp: parse_address_def Let_def dest: py_int_error range_token_error
      split: if_splits sum.splits)

lemma validate_speed_error:
  "speed_v < 5 \<or> 50000 < speed_v \<Longrightarrow> \<exists>m. validate_speed speed_v = Inl (ValueError m)"
  by (auto simp: validate_speed_def)

lemma validate_speed_cases:
  "(\<exists>m. validate_speed speed_v = Inl (ValueError m)) \<or> validate_speed speed_v = Inr speed_v"
  by (auto simp: validate_speed_def)

text \<open>
  Claim C8, as the code has it. When the speed is below 5 or above 50000, or an
  address that is not the empty string fails to parse, or the buffer name is empty or
  blank, \<open>main\<close> prints one line \<open>Error: ...\<close> on standard error and returns 1; it
  has made no SDK call and the environment is as it was. (An address given as the
  empty string counts as no address: \<open>if args.address:\<close> is false for it.)
\<close>

theorem main_rejects_invalid_arguments:
  assumes "speed a < 5 \<or> 50000 < speed a
           \<or> (\<exists>s e. address a = Some s \<and> s \<noteq> [] \<and> parse_address s = Inl e)
           \<or> buffer a = [] \<or> strip (buffer a) = []"
  shows "\<exists>msg. main jl a w = Some (Inr 1, w\<lparr>stderr := stderr w @ [''Error: '' @ msg]\<rparr>)"
proof -
  consider (bad_speed) m where "validate_speed (speed a) = Inl (ValueError m)"
    | (good_speed) "validate_speed (speed a) = Inr (speed a)"
    using validate_speed_cases[of "speed a"] by blast
  then show ?thesis
  proof cases
    case bad_speed
    then have "main jl a w = Some (Inr 1, w\<lparr>stderr := stderr w @ [''Error: '' @ m]\<rparr>)"
      by (simp add: main_def print_err_def)
    then show ?thesis by (rule exI)
  next
    case good_speed
    then have ns: "\<not> (speed a < 5 \<or> 50000 < speed a)"
      using validate_speed_error[of "speed a"] by auto
    show ?thesis
    proof (cases "\<exists>s e. given (address a) = Some s \<and> parse_address s = Inl e")
      case True
      then obtain s e where g: "given (address a) = Some s" and p: "parse_address s = Inl e"
        by blast
      from p obtain m where "e = ValueError m" using parse_address_error by blast
      then have "main jl a w
          = Some (Inr 1, w\<lparr>stderr := stderr w
                                @ [''Error: '' @ (''Invalid address format: '' @ m)]\<rparr>)"
        using good_speed g p by (simp add: main_def print_err_def)
      then show ?thesis by (rule exI)
    next
      case False
      have na: "\<not> (\<exists>s e. address a = Some s \<and> s \<noteq> [] \<and> parse_address s = Inl e)"
      proof
        assume "\<exists>s e. address a = Some s \<and> s \<noteq> [] \<and> parse_address s = Inl e"
        then obtain s e where "address a = Some s" "s \<noteq> []" "parse_address s = Inl e" by blast
        then have "given (address a) = Some s \<and> parse_address s = Inl e"
          by (simp add: given_def)
        then show False using False by blast
      qed
      have blank: "buffer a = [] \<or> strip (buffer a) = []" using assms ns na by blast
      have "(case given (address a) of None \<Rightarrow> None
             | Some s \<Rightarrow> (case parse_address s of Inl e \<Rightarrow> Some e | Inr info \<Rightarrow> None)) = None"
        using False by (auto split: option.splits sum.splits)
      then have "main jl a w
          = Some (Inr 1, w\<lparr>stderr := stderr w
                                @ [''Error: '' @ ''Buffer name cannot be empty'']\<rparr>)"
        using good_speed blank by (auto simp: main_def print_err_def)
      then show ?thesis by (rule exI)
    qed
  qed
qed

theorem main_rejects_invalid_arguments_witness:
  "strip (buffer (default_args\<lparr>buffer := ''  ''\<rparr>)) = []
   \<and> (\<exists>msg. main quiet_probe (default_args\<lparr>buffer := ''  ''\<rparr>) empty_world
       = Some (Inr 1, empty_world\<lparr>stderr := stderr empty_world @ [''Error: '' @ msg]\<rparr>))"
proof -
  have h: "strip (buffer (default_args\<lparr>buffer := ''  ''\<rparr>)) = []"
    by (simp add: default_args_def strip_def lstrip_def rstrip_def py_isspace_def)
  show ?thesis
    using main_rejects_invalid_arguments[of "default_args\<lparr>buffer := ''  ''\<rparr>"
        quiet_probe empty_world] h
    by simp
qed

text \<open>The claim as written fails for an address given as the empty string: it does
  not parse, yet \<open>main\<close> takes it for no address (\<open>if args.address:\<close>), opens the probe,
  starts RTT with auto-detection, lists the buffers as \<open>-p\<close> asks, and returns 0.\<close>

theorem main_rejects_invalid_arguments_counterexample:
  "parse_address [] = Inl (ValueError ''Empty address string'')
   \<and> main quiet_probe (default_args\<lparr>address := Some [], print_bufs := True\<rparr>) empty_world
       = Some (Inr 0,
           empty_world\<lparr>calls := [NewJLink, Open None, Opened, SetTif, SetSpeed 4000,
                          Connect ''NRF54L15_M33'', Opened, Connected, TargetConnected,
                          ProductName, SerialNumber, ProductName, SerialNumber,
                          RttStart AutoDetect, RttIsActive, RttIsActive, RttGetNumUpBuffers,
                          RttGetBufDescriptor 0 True, RttGetNumDownBuffers, Close],
                        stdout := [''Connecting to J-Link...'',
                          ''Connecting to NRF54L15_M33...'', ''Connected to:'', ''  J-Link'',
                          ''  S/N: 123456'', ''Configuring RTT...'',
                          ''Using auto-detection for RTT control block...'',
                          ''Searching for RTT control block...'', ''Up-buffers:'',
                          ''  #0 Terminal (size=1024)'', ''Down-buffers:'', ''  (none)''],
                        clock := 500\<rparr>)"
proof -
  have s: "main_session quiet_probe (default_args\<lparr>address := Some [], print_bufs := True\<rparr>)
             empty_world
       = Some (Inr 0,
           empty_world\<lparr>calls := [NewJLink, Open None, Opened, SetTif, SetSpeed 4000,
                          Connect ''NRF54L15_M33'', Opened, Connected, TargetConnected,
                          ProductName, SerialNumber, ProductName, SerialNumber,
                          RttStart AutoDetect, RttIsActive, RttIsActive, RttGetNumUpBuffers,
                          RttGetBufDescriptor 0 True, RttGetNumDownBuffers, Close],
                        stdout := [''Connecting to J-Link...'',
                          ''Connecting to NRF54L15_M33...'', ''Connected to:'', ''  J-Link'',
                          ''  S/N: 123456'', ''Configuring RTT...'',
                          ''Using auto-detection for RTT control block...'',
                          ''Searching for RTT control block...'', ''Up-buffers:'',
                          ''  #0 Terminal (size=1024)'', ''Down-buffers:'', ''  (none)''],
                        clock := 500\<rparr>)"
    by (simp add: quiet_session_start given_def default_args_def stage_listing_def
        quiet_print_buffers quiet_close_and_return empty_world_def)
  show ?thesis
    by (simp add: parse_address_def main_def s validate_speed_def given_def strip_Terminal
        default_args_def[THEN arg_cong, of speed] default_args_def[THEN arg_cong, of buffer])
qed

section \<open>Properties of the buffer-not-found report\<close>

text \<open>
  Claim C6, as the code has it. When the lookup finds no up-buffer of the requested
  name, \<open>main\<close> prints the error line and the heading \<open>Available buffers:\<close> on standard
  error, runs \<open>print_buffers\<close>, closes the J-Link and returns 1. A listing that succeeds
  puts its lines, from \<open>Up-buffers:\<close> on, on standard output: standard error holds the
  error line and the heading, and no buffer.
\<close>

theorem missing_up_buffer_report:
  assumes "find_buffer_by_name jl (buffer a) True 3 w = (Inr (index_up, desc_up), w1)"
    and "index_up < 0"
    and "print_buffers jl (print_err (newline # ''Available buffers:'')
                             (print_err (not_found_line ''up'' (buffer a)) w1)) = (True, w2)"
    and "fst (jl_close jl (env w2)) = Inr ()"
  shows "\<exists>w3. stage_up jl a w = Some (Inr 1, w3)
     \<and> stderr w3 = stderr w1 @ [not_found_line ''up'' (buffer a), newline # ''Available buffers:'']
     \<and> (\<exists>xs ys. stdout w3 = stdout w1 @ ''Up-buffers:'' # xs @ ''Down-buffers:'' # ys)"
proof -
  obtain e' where c: "jl_close jl (env w2) = (Inr (), e')"
    using assms(4) by (cases "jl_close jl (env w2)") simp
  define w3 where "w3 = w2\<lparr>env := e', calls := calls w2 @ [Close]\<rparr>"
  have r: "close_and_return jl 1 w2 = (Inr 1, w3)"
    by (simp add: close_and_return_def call_def c w3_def)
  have s: "stage_up jl a w = Some (Inr 1, w3)"
    using assms(1,2,3) r by (simp add: stage_up_def report_buffers_and_exit_def)
  have p: "stderr w2 = stderr w1 @ [not_found_line ''up'' (buffer a), newline # ''Available buffers:'']
     \<and> (\<exists>xs ys. stdout w2 = stdout w1 @ ''Up-buffers:'' # xs @ ''Down-buffers:'' # ys)"
    using print_buffers_streams[OF assms(3)] by (simp add: print_err_def)
  have "stderr w3 = stderr w2" "stdout w3 = stdout w2" by (simp_all add: w3_def)
  then show ?thesis using s p by simp
qed

theorem missing_up_buffer_report_witness:
  "find_buffer_by_name quiet_probe (buffer (default_args\<lparr>buffer := ''Missing''\<rparr>)) True 3
       empty_world
     = (Inr (- 1, None),
        empty_world\<lparr>calls := [RttIsActive, RttGetNumUpBuffers, RttGetBufDescriptor 0 True]\<rparr>)
   \<and> map_option fst (stage_up quiet_probe (default_args\<lparr>buffer := ''Missing''\<rparr>) empty_world)
       = Some (Inr 1)
   \<and> map_option (stderr \<circ> snd)
        (stage_up quiet_probe (default_args\<lparr>buffer := ''Missing''\<rparr>) empty_world)
       = Some [''Error: Failed to find matching up-buffer '' @ squote @ ''Missing'' @ squote,
               newline # ''Available buffers:'']
   \<and> main quiet_probe (default_args\<lparr>buffer := ''Missing''\<rparr>) empty_world
       = Some (Inr 1,
           empty_world\<lparr>calls := [NewJLink, Open None, Opened, SetTif, SetSpeed 4000,
                          Connect ''NRF54L15_M33'', Opened, Connected, TargetConnected,
                          ProductName, SerialNumber, ProductName, SerialNumber,
                          RttStart AutoDetect, RttIsActive, RttIsActive, RttGetNumUpBuffers,
                          RttGetBufDescriptor 0 True, RttIsActive, RttGetNumUpBuffers,
                          RttGetBufDescriptor 0 True, RttGetNumDownBuffers, Close],
                        stdout := [''Connecting to J-Link...'',
                          ''Connecting to NRF54L15_M33...'', ''Connected to:'', ''  J-Link'',
                          ''  S/N: 123456'', ''Configuring RTT...'',
                          ''Using auto-detection for RTT control block...'',
                          ''Searching for RTT control block...'', ''Up-buffers:'',
                          ''  #0 Terminal (size=1024)'', ''Down-buffers:'', ''  (none)''],
                        stderr := [''Error: Failed to find matching up-buffer '' @ squote
                                   @ ''Missing'' @ squote,
                                   newline # ''Available buffers:''],
                        clock := 500\<rparr>)"
proof -
  have b: "buffer (default_args\<lparr>buffer := ''Missing''\<rparr>) = ''Missing''" by simp
  have h1: "find_buffer_by_name quiet_probe (buffer (default_args\<lparr>buffer := ''Missing''\<rparr>))
              True 3 empty_world
     = (Inr (- 1, None),
        empty_world\<lparr>calls := [RttIsActive, RttGetNumUpBuffers, RttGetBufDescriptor 0 True]\<rparr>)"
    by (simp only: b quiet_find_Missing) (simp add: empty_world_def)
  have h2: "(- 1 :: int) < 0" by simp
  have h3: "print_buffers quiet_probe
              (print_err (newline # ''Available buffers:'')
                 (print_err (not_found_line ''up'' (buffer (default_args\<lparr>buffer := ''Missing''\<rparr>)))
                    (empty_world\<lparr>calls := [RttIsActive, RttGetNumUpBuffers,
                                             RttGetBufDescriptor 0 True]\<rparr>)))
     = (True, snd (print_buffers quiet_probe
              (print_err (newline # ''Available buffers:'')
                 (print_err (not_found_line ''up'' (buffer (default_args\<lparr>buffer := ''Missing''\<rparr>)))
                    (empty_world\<lparr>calls := [RttIsActive, RttGetNumUpBuffers,
                                             RttGetBufDescriptor 0 True]\<rparr>)))))"
    by (simp add: quiet_print_buffers)
  have h4: "fst (jl_close quiet_probe (env w')) = Inr ()" for w' :: "unit world"
    by (simp add: quiet_probe_def)
  have m: "main quiet_probe (default_args\<lparr>buffer := ''Missing''\<rparr>) empty_world
       = Some (Inr 1,
           empty_world\<lparr>calls := [NewJLink, Open None, Opened, SetTif, SetSpeed 4000,
                          Connect ''NRF54L15_M33'', Opened, Connected, TargetConnected,
                          ProductName, SerialNumber, ProductName, SerialNumber,
                          RttStart AutoDetect, RttIsActive, RttIsActive, RttGetNumUpBuffers,
                          RttGetBufDescriptor 0 True, RttIsActive, RttGetNumUpBuffers,
                          RttGetBufDescriptor 0 True, RttGetNumDownBuffers, Close],
                        stdout := [''Connecting to J-Link...'',
                          ''Connecting to NRF54L15_M33...'', ''Connected to:'', ''  J-Link'',
                          ''  S/N: 123456'', ''Configuring RTT...'',
                          ''Using auto-detection for RTT control block...'',
                          ''Searching for RTT control block...'', ''Up-buffers:'',
                          ''  #0 Terminal (size=1024)'', ''Down-buffers:'', ''  (none)''],
                        stderr := [''Error: Failed to find matching up-buffer '' @ squote
                                   @ ''Missing'' @ squote,
                                   newline # ''Available buffers:''],
                        clock := 500\<rparr>)"
  proof -
    have "main_session quiet_probe (default_args\<lparr>buffer := ''Missing''\<rparr>) empty_world
       = Some (Inr 1,
           empty_world\<lparr>calls := [NewJLink, Open None, Opened, SetTif, SetSpeed 4000,
                          Connect ''NRF54L15_M33'', Opened, Connected, TargetConnected,
                          ProductName, SerialNumber, ProductName, SerialNumber,
                          RttStart AutoDetect, RttIsActive, RttIsActive, RttGetNumUpBuffers,
                          RttGetBufDescriptor 0 True, RttIsActive, RttGetNumUpBuffers,
                          RttGetBufDescriptor 0 True, RttGetNumDownBuffers, Close],
                        stdout := [''Connecting to J-Link...'',
                          ''Connecting to NRF54L15_M33...'', ''Connected to:'', ''  J-Link'',
                          ''  S/N: 123456'', ''Configuring RTT...'',
                          ''Using auto-detection for RTT control block...'',
                          ''Searching for RTT control block...'', ''Up-buffers:'',
                          ''  #0 Terminal (size=1024)'', ''Down-buffers:'', ''  (none)''],
                        stderr := [''Error: Failed to find matching up-buffer '' @ squote
                                   @ ''Missing'' @ squote,
                                   newline # ''Available buffers:''],
                        clock := 500\<rparr>)"
      by (simp add: quiet_session_start given_def default_args_def stage_listing_def
          stage_up_def quiet_find_Missing report_buffers_and_exit_def quiet_print_buffers
          quiet_close_and_return print_err_def not_found_line_def empty_world_def)
    then show ?thesis
      by (simp add: main_def validate_speed_def given_def strip_Missing
          default_args_def[THEN arg_cong, of speed] default_args_def[THEN arg_cong, of address])
  qed
  from missing_up_buffer_report[OF h1 h2 h3 h4]
  obtain w3 where "stage_up quiet_probe (default_args\<lparr>buffer := ''Missing''\<rparr>) empty_world
                    = Some (Inr 1, w3)"
    and "stderr w3 = stderr (empty_world\<lparr>calls := [RttIsActive, RttGetNumUpBuffers,
                                                   RttGetBufDescriptor 0 True]\<rparr>)
            @ [not_found_line ''up'' (buffer (default_args\<lparr>buffer := ''Missing''\<rparr>)),
               newline # ''Available buffers:'']"
    by blast
  then show ?thesis using h1 m by (simp add: not_found_line_def empty_world_def)
qed

end
